theory Spec2Isabelle
  imports Main
begin

section \<open>JavaScript values\<close>

text \<open>
  The values that reach the code from the service description (parsed YAML) and from the
  command line: undefined, null, booleans, integer numbers, strings and plain objects.
  An object is the list of its own enumerable properties in enumeration order.
  Numbers are integers below \<open>10^21\<close> in absolute value, whose \<open>toString\<close> is the
  plain decimal numeral; fractions, \<open>NaN\<close> and arrays are outside this type.
\<close>

datatype jsval =
    JUndefined
  | JNull
  | JBool bool
  | JNum int
  | JStr string
  | JObj "(string \<times> jsval) list"

datatype error =
    TypeError
  | Error string

definition isDigit :: "char \<Rightarrow> bool" where
  "isDigit c = (c \<in> set ''0123456789'')"

definition isAlpha :: "char \<Rightarrow> bool" where
  "isAlpha c = (c \<in> set ''abcdefghijklmnopqrstuvwxyzABCDEFGHIJKLMNOPQRSTUVWXYZ'')"

fun digitsOf :: "nat \<Rightarrow> string" where
  "digitsOf n =
     (if n < 10 then [''0123456789'' ! n]
      else digitsOf (n div 10) @ [''0123456789'' ! (n mod 10)])"

declare digitsOf.simps [simp del]

definition numToString :: "int \<Rightarrow> string" where
  "numToString n = (if n < 0 then CHR ''-'' # digitsOf (nat (- n)) else digitsOf (nat n))"

text \<open>\<open>String(v)\<close>, the conversion a template literal applies.\<close>

fun jsString :: "jsval \<Rightarrow> string" where
  "jsString JUndefined = ''undefined''"
| "jsString JNull = ''null''"
| "jsString (JBool b) = (if b then ''true'' else ''false'')"
| "jsString (JNum n) = numToString n"
| "jsString (JStr s) = s"
| "jsString (JObj kvs) = ''[object Object]''"

text \<open>
  Whether a value can be turned into a string. Undefined and null have no \<open>toString\<close>
  method; an object with a key \<open>toString\<close> of its own has a value there that is not a
  function (no value of this type is one), which shadows the inherited method.
\<close>

fun hasToString :: "jsval \<Rightarrow> bool" where
  "hasToString JUndefined = False"
| "hasToString JNull = False"
| "hasToString (JObj kvs) = (map_of kvs ''toString'' = None)"
| "hasToString v = True"

text \<open>The method call \<open>v.toString()\<close>: a TypeError where there is no such method.\<close>

definition toString :: "jsval \<Rightarrow> error + string" where
  "toString v = (if hasToString v then Inr (jsString v) else Inl TypeError)"

text \<open>Truthiness, as \<open>if (v)\<close> and \<open>v || w\<close> test it.\<close>

fun truthy :: "jsval \<Rightarrow> bool" where
  "truthy JUndefined = False"
| "truthy JNull = False"
| "truthy (JBool b) = b"
| "truthy (JNum n) = (n \<noteq> 0)"
| "truthy (JStr s) = (s \<noteq> [])"
| "truthy (JObj kvs) = True"

text \<open>lodash \<open>_.isEmpty\<close>: everything but a non-empty string or object is empty.\<close>

fun isEmpty :: "jsval \<Rightarrow> bool" where
  "isEmpty (JStr s) = (s = [])"
| "isEmpty (JObj kvs) = (kvs = [])"
| "isEmpty v = True"

text \<open>\<open>a || b\<close>\<close>

definition jsOr :: "jsval \<Rightarrow> jsval \<Rightarrow> jsval" where
  "jsOr a b = (if truthy a then a else b)"

text \<open>\<open>obj[key]\<close> on an object: undefined for a key it does not have.\<close>

definition getProp :: "(string \<times> jsval) list \<Rightarrow> string \<Rightarrow> jsval" where
  "getProp kvs k = (case map_of kvs k of None \<Rightarrow> JUndefined | Some v \<Rightarrow> v)"

text \<open>
  lodash \<open>_.isEqual\<close>: primitives are equal when they are the same value; two objects
  are equal when they have the same number of keys and every key of the first is a key of
  the second with an equal value, whatever the order of the keys.
\<close>

fun isEqual :: "jsval \<Rightarrow> jsval \<Rightarrow> bool"
  and propsWithin :: "(string \<times> jsval) list \<Rightarrow> (string \<times> jsval) list \<Rightarrow> bool" where
  "isEqual (JObj a) (JObj b) = (length a = length b \<and> propsWithin a b)"
| "isEqual v w = (v = w)"
| "propsWithin [] b = True"
| "propsWithin ((k, v) # a) b =
     ((case map_of b k of None \<Rightarrow> False | Some w \<Rightarrow> isEqual v w) \<and> propsWithin a b)"

text \<open>
  lodash \<open>isLength\<close>: a number that is a non-negative integer up to
  \<open>Number.MAX_SAFE_INTEGER\<close>.
\<close>

fun isLength :: "jsval \<Rightarrow> bool" where
  "isLength (JNum n) = (0 \<le> n \<and> n \<le> 9007199254740991)"
| "isLength v = False"

text \<open>
  lodash \<open>_.each\<close> on an object, as the list of the (key, value) pairs the callback
  is called with. An object whose \<open>length\<close> property is a length is array-like: the
  callback gets the indices \<open>0\<close> to \<open>length - 1\<close> as numbers, each with
  \<open>obj[index]\<close> (undefined where the object has no such property). Any other object is
  visited by its own keys.
\<close>

definition eachEntries :: "(string \<times> jsval) list \<Rightarrow> (jsval \<times> jsval) list" where
  "eachEntries kvs =
     (case getProp kvs ''length'' of
        JNum n \<Rightarrow>
          if isLength (JNum n)
          then map (\<lambda>i. (JNum (int i), getProp kvs (numToString (int i)))) [0 ..< nat n]
          else map (\<lambda>kv. (JStr (fst kv), snd kv)) kvs
      | v \<Rightarrow> map (\<lambda>kv. (JStr (fst kv), snd kv)) kvs)"

section \<open>Resource Spec Builder: \<open>getFunctionDescription\<close>\<close>

record resources =
  limits_memory :: jsval
  requests_memory :: jsval

record container =
  c_name :: string
  c_env :: "(jsval \<times> string) list option"
  c_resources :: "resources option"

record metadata =
  m_name :: string
  m_namespace :: string
  m_annotations :: "string option"
  m_labels :: "jsval option"

text \<open>
  The spec payload. \<open>s_template\<close> is the one container of
  \<open>spec.template.spec.containers\<close>; a field the code never assigns is \<open>None\<close>.
\<close>

record spec =
  s_deps :: string
  s_function :: string
  s_handler :: string
  s_runtime :: string
  s_template :: "container option"
  s_type :: "string option"
  s_topic :: "jsval option"

record funcs =
  f_apiVersion :: string
  f_kind :: string
  f_metadata :: metadata
  f_spec :: spec

text \<open>
  \<open>_.each(env, (v, k) => container.env.push({ name: k, value: v.toString() }))\<close> on
  the pairs \<open>_.each\<close> visits: the first value without a \<open>toString\<close> method throws.
\<close>

fun envEntries :: "(jsval \<times> jsval) list \<Rightarrow> error + (jsval \<times> string) list" where
  "envEntries [] = Inr []"
| "envEntries ((k, v) # kvs) =
     (case toString v of
        Inl e \<Rightarrow> Inl e
      | Inr s \<Rightarrow> (case envEntries kvs of Inl e \<Rightarrow> Inl e | Inr r \<Rightarrow> Inr ((k, s) # r)))"

text \<open>
  \<open>str.match(/\d+$/)\<close>: without the multiline flag \<open>$\<close> is the end of the input, so the
  pattern matches exactly when the last character is a decimal digit.
\<close>

definition endsWithDigit :: "string \<Rightarrow> bool" where
  "endsWithDigit s = (s \<noteq> [] \<and> isDigit (last s))"

definition memoryWithSuffix :: "jsval \<Rightarrow> error + jsval" where
  "memoryWithSuffix memory =
     (case toString memory of
        Inl e \<Rightarrow> Inl e
      | Inr str \<Rightarrow> Inr (if endsWithDigit str then JStr (jsString memory @ ''Mi'') else memory))"

text \<open>
  The block under \<open>if (env || memory)\<close>; \<open>env\<close> is an object or absent. The
  environment is converted before the memory value.
\<close>

definition containerOf ::
  "string \<Rightarrow> (string \<times> jsval) list option \<Rightarrow> jsval \<Rightarrow> error + container option" where
  "containerOf funcName env memory =
     (if env \<noteq> None \<or> truthy memory then
        (case (case env of None \<Rightarrow> Inr None
                 | Some kvs \<Rightarrow> (case envEntries (eachEntries kvs) of
                                 Inl e \<Rightarrow> Inl e | Inr r \<Rightarrow> Inr (Some r))) of
           Inl e \<Rightarrow> Inl e
         | Inr envList \<Rightarrow>
             (case (if truthy memory
                    then (case memoryWithSuffix memory of
                            Inl e \<Rightarrow> Inl e
                          | Inr m \<Rightarrow> Inr (Some \<lparr> limits_memory = m, requests_memory = m \<rparr>))
                    else Inr None) of
                Inl e \<Rightarrow> Inl e
              | Inr res \<Rightarrow>
                  Inr (Some \<lparr> c_name = funcName, c_env = envList, c_resources = res \<rparr>)))
      else Inr None)"

definition eventTypeName :: "string option \<Rightarrow> string" where
  "eventTypeName eventType = (case eventType of None \<Rightarrow> ''undefined'' | Some t \<Rightarrow> t)"

text \<open>
  \<open>eventType\<close> is \<open>_.keys(event)[0]\<close>: a string, or undefined (\<open>None\<close>) for an
  event without keys. \<open>desc\<close> is a string or absent, \<open>deps\<close> the dependency manifest
  or absent.
\<close>

definition getFunctionDescription ::
  "string \<Rightarrow> string \<Rightarrow> string \<Rightarrow> string option \<Rightarrow> string \<Rightarrow> string \<Rightarrow> string option \<Rightarrow>
   jsval \<Rightarrow> (string \<times> jsval) list option \<Rightarrow> jsval \<Rightarrow> string option \<Rightarrow> jsval \<Rightarrow> error + funcs" where
  "getFunctionDescription funcName namespace runtime deps funcContent handler desc labels env
     memory eventType eventTrigger =
     (let meta = \<lparr> m_name = funcName,
                   m_namespace = namespace,
                   m_annotations = (case desc of None \<Rightarrow> None
                                    | Some d \<Rightarrow> if d \<noteq> [] then Some d else None),
                   m_labels = (if truthy labels then Some labels else None) \<rparr>;
          sp = \<lparr> s_deps = (case deps of None \<Rightarrow> [] | Some d \<Rightarrow> d),
                 s_function = funcContent,
                 s_handler = handler,
                 s_runtime = runtime,
                 s_template = None,
                 s_type = None,
                 s_topic = None \<rparr>
      in case containerOf funcName env memory of
           Inl e \<Rightarrow> Inl e
         | Inr tmpl \<Rightarrow>
             (let doc = \<lparr> f_apiVersion = ''k8s.io/v1'', f_kind = ''Function'',
                           f_metadata = meta, f_spec = sp\<lparr> s_template := tmpl \<rparr> \<rparr>
              in if eventType = Some ''http'' then
                   Inr (doc\<lparr> f_spec := (f_spec doc)\<lparr> s_type := Some ''HTTP'' \<rparr> \<rparr>)
                 else if eventType = Some ''trigger'' then
                   (if isEmpty eventTrigger
                    then Inl (Error ''You should specify a topic for the trigger event'')
                    else Inr (doc\<lparr> f_spec := (f_spec doc)\<lparr> s_type := Some ''PubSub'',
                                                             s_topic := Some eventTrigger \<rparr> \<rparr>))
                 else Inl (Error (''Event type '' @ eventTypeName eventType @ '' is not supported''))))"

text \<open>
  Every value that \<open>_.each\<close> reads from the environment can be turned into a string.
\<close>

definition stringifiable :: "(string \<times> jsval) list option \<Rightarrow> bool" where
  "stringifiable env =
     (case env of None \<Rightarrow> True
      | Some kvs \<Rightarrow> list_all (\<lambda>kv. hasToString (snd kv)) (eachEntries kvs))"

text \<open>
  The two conversions of the builder go through: the environment is stringifiable, and
  so is the memory value when one is given.
\<close>

definition convertible :: "(string \<times> jsval) list option \<Rightarrow> jsval \<Rightarrow> bool" where
  "convertible env memory = (stringifiable env \<and> (truthy memory \<longrightarrow> hasToString memory))"

text \<open>
  The spec's wording of the test, "purely numeric (no unit suffix)": a non-empty string of
  decimal digits only.
\<close>

definition spec_purelyNumeric :: "string \<Rightarrow> bool" where
  "spec_purelyNumeric s = (s \<noteq> [] \<and> list_all isDigit s)"

section \<open>Log Filter: \<open>filterLogs\<close>\<close>

definition newline :: char where
  "newline = CHR 0x0A"

text \<open>\<open>s.split(c)\<close> for a one-character separator: the empty string splits into one empty piece.\<close>

fun split_on :: "char \<Rightarrow> string \<Rightarrow> string list" where
  "split_on c [] = [[]]"
| "split_on c (x # xs) =
     (if x = c then [] # split_on c xs
      else (case split_on c xs of [] \<Rightarrow> [[x]] | y # ys \<Rightarrow> (x # y) # ys))"

text \<open>\<open>xs.join(sep)\<close>\<close>

fun join :: "string \<Rightarrow> string list \<Rightarrow> string" where
  "join sep [] = []"
| "join sep [x] = x"
| "join sep (x # y # ys) = x @ sep @ join sep (y # ys)"

text \<open>\<open>_.compact\<close> on strings: the empty string is the only falsy one.\<close>

definition compact :: "string list \<Rightarrow> string list" where
  "compact xs = filter (\<lambda>e. e \<noteq> []) xs"

text \<open>
  \<open>xs.slice(start)\<close>: a negative start counts from the end, and the start is clamped to
  the bounds of the array.
\<close>

definition slice :: "'a list \<Rightarrow> int \<Rightarrow> 'a list" where
  "slice xs start =
     (let len = int (length xs);
          k = (if start < 0 then max (len + start) 0 else min start len)
      in drop (nat k) xs)"

text \<open>\<open>_.findIndex\<close>: the index of the first element that satisfies the predicate, or -1.\<close>

fun findIndex :: "'a list \<Rightarrow> ('a \<Rightarrow> bool) \<Rightarrow> int" where
  "findIndex [] p = - 1"
| "findIndex (x # xs) p =
     (if p x then 0 else (let i = findIndex xs p in if i = - 1 then - 1 else i + 1))"

text \<open>
  The timestamp pattern
  \<open>/(\d{2}\/[a-zA-Z]{3}\/\d{4}:\d{2}:\d{2}:\d{2} \+\d{4}|-\d{4})/\<close>.
  The alternation splits the whole group: its first branch is a date with a \<open>+\<close> offset,
  its second branch is \<open>-\<close> and four digits alone. Both branches have a fixed length,
  so a match at a position is a match of a list of character classes.
\<close>

datatype cls = Digit | Letter | Lit char

fun inClass :: "cls \<Rightarrow> char \<Rightarrow> bool" where
  "inClass Digit c = isDigit c"
| "inClass Letter c = isAlpha c"
| "inClass (Lit l) c = (c = l)"

fun matchesAt :: "cls list \<Rightarrow> string \<Rightarrow> bool" where
  "matchesAt [] s = True"
| "matchesAt (p # ps) [] = False"
| "matchesAt (p # ps) (c # cs) = (inClass p c \<and> matchesAt ps cs)"

definition datePattern :: "cls list" where
  "datePattern =
     [Digit, Digit, Lit CHR ''/'', Letter, Letter, Letter, Lit CHR ''/'',
      Digit, Digit, Digit, Digit, Lit CHR '':'', Digit, Digit, Lit CHR '':'',
      Digit, Digit, Lit CHR '':'', Digit, Digit, Lit CHR '' '', Lit CHR ''+'',
      Digit, Digit, Digit, Digit]"

definition offsetPattern :: "cls list" where
  "offsetPattern = [Lit CHR ''-'', Digit, Digit, Digit, Digit]"

text \<open>\<open>entry.match(pattern)\<close>: group 1 of the leftmost match, first branch first.\<close>

fun entryDate :: "string \<Rightarrow> string option" where
  "entryDate [] = None"
| "entryDate (c # cs) =
     (if matchesAt datePattern (c # cs) then Some (take (length datePattern) (c # cs))
      else if matchesAt offsetPattern (c # cs) then Some (take (length offsetPattern) (c # cs))
      else entryDate cs)"

text \<open>
  The date library (moment) is not part of the repository; its three uses are parameters.
  Each gives the milliseconds of \<open>valueOf()\<close>, or \<open>None\<close> for \<open>NaN\<close>:
  \<open>parseLogDate s\<close> is \<open>moment(s, 'DD/MMM/YYYY:HH:mm:ss Z')\<close>,
  \<open>subtractFromNow amount unit\<close> is \<open>moment().subtract(amount, unit)\<close>, and
  \<open>parseMoment s\<close> is \<open>moment(s)\<close>.
\<close>

record moment_lib =
  parseLogDate :: "string \<Rightarrow> int option"
  subtractFromNow :: "string \<Rightarrow> string \<Rightarrow> int option"
  parseMoment :: "string \<Rightarrow> int option"

text \<open>\<open>a >= b\<close> on numbers: false when either side is \<open>NaN\<close>.\<close>

definition geNum :: "int option \<Rightarrow> int option \<Rightarrow> bool" where
  "geNum a b = (case a of None \<Rightarrow> False | Some x \<Rightarrow> (case b of None \<Rightarrow> False | Some y \<Rightarrow> y \<le> x))"

text \<open>
  The options after \<open>_.defaults\<close>: \<open>None\<close> is null. A start time is a string, a count an
  integer number, and a pattern is given by the entries it matches (the regular
  expression engine is the language's own).
\<close>

record log_options =
  startTime :: "string option"
  count :: "int option"
  filter_opt :: "(string \<Rightarrow> bool) option"

text \<open>\<open>if (opts.count)\<close>: the last \<open>count\<close> entries by \<open>slice(length - count)\<close>.\<close>

definition countStage :: "log_options \<Rightarrow> string list \<Rightarrow> string list" where
  "countStage opts logEntries =
     (case count opts of
        None \<Rightarrow> logEntries
      | Some n \<Rightarrow> if n \<noteq> 0 then slice logEntries (int (length logEntries) - n) else logEntries)"

text \<open>\<open>if (opts.filter)\<close>\<close>

definition patternStage :: "log_options \<Rightarrow> string list \<Rightarrow> string list" where
  "patternStage opts logEntries =
     (case filter_opt opts of None \<Rightarrow> logEntries | Some m \<Rightarrow> filter m logEntries)"

text \<open>\<open>!!startTime.toString().match(/(?:m|h|d)/)\<close>\<close>

definition since :: "string \<Rightarrow> bool" where
  "since st = (\<exists>c \<in> set st. c = CHR ''m'' \<or> c = CHR ''h'' \<or> c = CHR ''d'')"

definition startMoment :: "moment_lib \<Rightarrow> string \<Rightarrow> int option" where
  "startMoment lib st =
     (if since st
      then subtractFromNow lib (filter isDigit st) (filter (\<lambda>c. \<not> isDigit c) st)
      else parseMoment lib st)"

text \<open>The predicate handed to \<open>_.findIndex\<close>.\<close>

definition entryAtOrAfter :: "moment_lib \<Rightarrow> int option \<Rightarrow> string \<Rightarrow> bool" where
  "entryAtOrAfter lib start entry =
     (case entryDate entry of
        None \<Rightarrow> False
      | Some d \<Rightarrow> geNum (parseLogDate lib d) start)"

text \<open>\<open>if (opts.startTime)\<close>\<close>

definition timeStage :: "moment_lib \<Rightarrow> log_options \<Rightarrow> string list \<Rightarrow> string list" where
  "timeStage lib opts logEntries =
     (case startTime opts of
        None \<Rightarrow> logEntries
      | Some st \<Rightarrow>
          if st \<noteq> [] then
            (let logIndex = findIndex logEntries (entryAtOrAfter lib (startMoment lib st))
             in if logIndex > - 1 then slice logEntries logIndex else [])
          else logEntries)"

definition filterLogs :: "moment_lib \<Rightarrow> string \<Rightarrow> log_options \<Rightarrow> string" where
  "filterLogs lib logs opts =
     join [newline]
       (timeStage lib opts
          (patternStage opts
             (countStage opts (compact (split_on newline logs)))))"


text \<open>
  A sample date library for concrete runs: it knows two log dates and two absolute start
  times.
\<close>

definition sampleMoment :: moment_lib where
  "sampleMoment =
     \<lparr> parseLogDate = (\<lambda>s. if s = ''01/Jan/2017:00:00:00 +0000'' then Some 1483228800000
                             else if s = ''03/Nov/2017:10:00:00 +0000'' then Some 1509703200000
                             else None),
       subtractFromNow = (\<lambda>amount unit. None),
       parseMoment = (\<lambda>s. if s = ''2017-06-01'' then Some 1496275200000
                            else if s = ''2018-01-01'' then Some 1514764800000
                            else None) \<rparr>"

definition sampleLog :: string where
  "sampleLog =
     ''[01/Jan/2017:00:00:00 +0000] old'' @ [newline] @
     ''[03/Nov/2017:10:00:00 +0000] new'' @ [newline] @ ''tail''"

section \<open>Readiness Poller: \<open>waitForDeployment\<close>\<close>

text \<open>
  What one tick reads of a pod. \<open>pod_labels\<close> is \<open>metadata.labels\<close> (absent on a pod
  without labels), \<open>creationTimestamp\<close> the creation time in milliseconds as the date
  library reads it, \<open>containerStatuses\<close> is \<open>status.containerStatuses\<close> (absent while
  the pod is pending), \<open>cs_state\<close> the JSON text of a container's state.
\<close>

record containerStatus =
  ready :: bool
  restartCount :: int
  cs_state :: string

record pod =
  pod_labels :: "(string \<times> string) list option"
  creationTimestamp :: int
  containerStatuses :: "containerStatus list option"

text \<open>The answer of \<open>core.pods.get\<close>: an error with its message, or the pod list.\<close>

datatype podsResult = PodsError string | PodsInfo "pod list"

text \<open>
  The variables the interval callback closes over, with the process exit code, the lines
  logged so far, whether \<open>clearInterval\<close> has run, and an exception thrown out of a
  callback (nothing catches it).
\<close>

record poller =
  retries :: nat
  successfulCount :: nat
  previousPodStatus :: "string list option"
  cleared :: bool
  exitCode :: int
  logged :: "string list"
  thrown :: "error option"

definition pollerStart :: "int \<Rightarrow> poller" where
  "pollerStart code =
     \<lparr> retries = 0, successfulCount = 0, previousPodStatus = None, cleared = False,
       exitCode = code, logged = [], thrown = None \<rparr>"

definition cli_log :: "string \<Rightarrow> poller \<Rightarrow> poller" where
  "cli_log line s = s\<lparr> logged := logged s @ [line] \<rparr>"

text \<open>\<open>str.match(/request timed out/)\<close>: the text occurs somewhere in the string.\<close>

fun containsText :: "string \<Rightarrow> string \<Rightarrow> bool" where
  "containsText pat [] = (pat = [])"
| "containsText pat (c # cs) = (take (length pat) (c # cs) = pat \<or> containsText pat cs)"

text \<open>
  \<open>_.filter(podsInfo.items, pod => pod.metadata.labels.function === funcName &&
  moment(pod.metadata.creationTimestamp) >= requestMoment)\<close>: reading \<open>function\<close> of
  absent labels throws.
\<close>

fun functionPodsOf :: "string \<Rightarrow> int \<Rightarrow> pod list \<Rightarrow> error + pod list" where
  "functionPodsOf funcName requestMoment [] = Inr []"
| "functionPodsOf funcName requestMoment (p # ps) =
     (case pod_labels p of
        None \<Rightarrow> Inl TypeError
      | Some labels \<Rightarrow>
          (case functionPodsOf funcName requestMoment ps of
             Inl e \<Rightarrow> Inl e
           | Inr r \<Rightarrow>
               Inr (if map_of labels ''function'' = Some funcName
                       \<and> requestMoment \<le> creationTimestamp p
                    then p # r else r)))"

definition failedMessage :: string where
  "failedMessage = ''ERROR: Failed to deploy the function''"

definition successMessage :: "string \<Rightarrow> string" where
  "successMessage funcName = ''Function '' @ funcName @ '' succesfully deployed''"

definition givingUpMessage :: "string \<Rightarrow> string" where
  "givingUpMessage funcName =
     ''Giving up, unable to retrieve the status of the '' @ funcName @ '' deployment. ''"

text \<open>
  The body of \<open>_.each(functionPods, pod => ...)\<close> on the pair of \<open>runningPods\<close> and the
  state. The restart count is read only in the \<open>else\<close> of the readiness test. An empty
  \<open>containerStatuses\<close> array is truthy and its element 0 is undefined, so reading
  \<open>ready\<close> throws.
\<close>

fun eachPod :: "pod list \<Rightarrow> nat \<times> poller \<Rightarrow> nat \<times> poller" where
  "eachPod [] acc = acc"
| "eachPod (p # ps) (runningPods, s) =
     (if thrown s \<noteq> None then (runningPods, s)
      else
        (case containerStatuses p of
           None \<Rightarrow> eachPod ps (runningPods, s)
         | Some [] \<Rightarrow> (runningPods, s\<lparr> thrown := Some TypeError \<rparr>)
         | Some (c # cs) \<Rightarrow>
             if ready c then eachPod ps (runningPods + 1, s)
             else if 2 < restartCount c then
               eachPod ps
                 (runningPods,
                  (cli_log failedMessage s)
                    \<lparr> exitCode := (if exitCode s \<noteq> 0 then exitCode s else 1),
                      cleared := True \<rparr>)
             else eachPod ps (runningPods, s)))"



text \<open>
  The status line of the verbose branch; element 0 of an empty array never gets here,
  \<open>eachPod\<close> has thrown before.
\<close>

definition podStatusText :: "pod \<Rightarrow> string" where
  "podStatusText p =
     (case containerStatuses p of
        None \<Rightarrow> ''unknown''
      | Some [] \<Rightarrow> ''unknown''
      | Some (c # cs) \<Rightarrow> cs_state c)"

text \<open>
  One tick: the interval callback together with the callback of its \<open>core.pods.get\<close>
  (each answer is taken to arrive before the next tick). \<open>verbose\<close> is
  \<open>this.options.verbose\<close>.
\<close>

definition tick :: "bool \<Rightarrow> string \<Rightarrow> int \<Rightarrow> podsResult \<Rightarrow> poller \<Rightarrow> poller" where
  "tick verbose funcName requestMoment answer s =
     (if 3 < retries s then (cli_log (givingUpMessage funcName) s)\<lparr> cleared := True \<rparr>
      else
        (case answer of
           PodsError message \<Rightarrow>
             if containsText ''request timed out'' message
             then cli_log ''Request timed out. Retrying...'' s
             else s\<lparr> thrown := Some (Error message) \<rparr>
         | PodsInfo pitems \<Rightarrow>
             (case functionPodsOf funcName requestMoment pitems of
                Inl e \<Rightarrow> s\<lparr> thrown := Some e \<rparr>
              | Inr functionPods \<Rightarrow>
                  if functionPods = [] then
                    cli_log (''Unable to find any running pod for '' @ funcName @ ''. Retrying...'')
                      (s\<lparr> retries := retries s + 1 \<rparr>)
                  else
                    (case eachPod functionPods (0, s) of
                       (runningPods, s1) \<Rightarrow>
                         if thrown s1 \<noteq> None then s1
                         else if runningPods = length functionPods then
                           (let s2 = s1\<lparr> successfulCount := successfulCount s1 + 1 \<rparr>
                            in if successfulCount s2 = 2
                               then (cli_log (successMessage funcName) s2)\<lparr> cleared := True \<rparr>
                               else s2)
                         else if verbose then
                           (let s2 = s1\<lparr> successfulCount := 0 \<rparr>;
                                currentPodStatus = map podStatusText functionPods
                            in if previousPodStatus s2 \<noteq> Some currentPodStatus
                               then (cli_log (''Pods status: '' @ join '','' currentPodStatus) s2)
                                      \<lparr> previousPodStatus := Some currentPodStatus \<rparr>
                               else s2)
                         else s1))))"

text \<open>The interval: ticks come until it is cleared, or until a callback has thrown.\<close>

fun runTicks :: "bool \<Rightarrow> string \<Rightarrow> int \<Rightarrow> podsResult list \<Rightarrow> poller \<Rightarrow> poller" where
  "runTicks verbose funcName requestMoment [] s = s"
| "runTicks verbose funcName requestMoment (answer # answers) s =
     (if cleared s \<or> thrown s \<noteq> None then s
      else runTicks verbose funcName requestMoment answers
             (tick verbose funcName requestMoment answer s))"

text \<open>
  The terminal states of the spec, read off the state: the interval is cleared, and the
  line of the branch that cleared it has been logged.
\<close>

definition Stable :: "string \<Rightarrow> poller \<Rightarrow> bool" where
  "Stable funcName s = (cleared s \<and> successMessage funcName \<in> set (logged s))"

definition Failed :: "poller \<Rightarrow> bool" where
  "Failed s = (cleared s \<and> exitCode s \<noteq> 0 \<and> failedMessage \<in> set (logged s))"

definition GivenUp :: "string \<Rightarrow> poller \<Rightarrow> bool" where
  "GivenUp funcName s = (cleared s \<and> givingUpMessage funcName \<in> set (logged s))"

text \<open>Sample pods of the function \<open>hello\<close>, for concrete runs.\<close>

definition samplePod :: "bool \<Rightarrow> int \<Rightarrow> pod" where
  "samplePod isReady restarts =
     \<lparr> pod_labels = Some [(''function'', ''hello'')],
       creationTimestamp = 1000,
       containerStatuses =
         Some [\<lparr> ready = isReady, restartCount = restarts, cs_state = ''{}'' \<rparr>] \<rparr>"

section \<open>Ingress Spec Builder: \<open>getIngressDescription\<close>\<close>

record ingress =
  ing_kind :: string
  ing_name :: string
  ing_labels :: "(string \<times> string) list"
  ing_annotations :: "(string \<times> string) list"
  ing_host :: jsval
  ing_path :: jsval
  ing_serviceName :: string
  ing_servicePort :: int

definition getIngressDescription :: "string \<Rightarrow> jsval \<Rightarrow> jsval \<Rightarrow> ingress" where
  "getIngressDescription funcName funcPath funcHost =
     \<lparr> ing_kind = ''Ingress'',
       ing_name = ''ingress-'' @ funcName,
       ing_labels = [(''function'', funcName)],
       ing_annotations = [(''kubernetes.io/ingress.class'', ''nginx''),
                          (''ingress.kubernetes.io/rewrite-target'', ''/'')],
       ing_host = funcHost,
       ing_path = funcPath,
       ing_serviceName = funcName,
       ing_servicePort = 8080 \<rparr>"

section \<open>Deployment Reconciler: \<open>deployFunction\<close>\<close>

text \<open>
  The cluster is outside the repository. One chain of \<open>deployFunction\<close> (one event of one
  function) makes each call at most once, so the cluster is given by its answer to each:
  the list of function resources (or the error of the listing), and the error, if any, of
  the create call, of the update call and of the ingress call.
\<close>

record apiError =
  err_code :: int
  err_message :: string

text \<open>
  The spec payload of a stored resource, as far as \<open>_.isEqual\<close> with a built payload
  can tell: a payload with the keys and value types of a built one, or any other payload
  (\<open>Foreign\<close>), which no built payload equals.
\<close>

datatype payload = Payload spec | Foreign

text \<open>
  \<open>_.isEqual(item.spec, funcs.spec)\<close>: key by key, with absent keys equal only to
  absent keys, the \<open>env\<close> array element by element in order, and \<open>_.isEqual\<close> on the
  values that may be objects.
\<close>

definition isEqualContainer :: "container \<Rightarrow> container \<Rightarrow> bool" where
  "isEqualContainer a b =
     (c_name a = c_name b
      \<and> rel_option (list_all2 (\<lambda>x y. isEqual (fst x) (fst y) \<and> snd x = snd y)) (c_env a) (c_env b)
      \<and> rel_option (\<lambda>r r'. isEqual (limits_memory r) (limits_memory r')
                           \<and> isEqual (requests_memory r) (requests_memory r'))
            (c_resources a) (c_resources b))"

fun isEqualSpec :: "payload \<Rightarrow> spec \<Rightarrow> bool" where
  "isEqualSpec Foreign b = False"
| "isEqualSpec (Payload a) b =
     (s_deps a = s_deps b \<and> s_function a = s_function b \<and> s_handler a = s_handler b
      \<and> s_runtime a = s_runtime b \<and> s_type a = s_type b
      \<and> rel_option isEqual (s_topic a) (s_topic b)
      \<and> rel_option isEqualContainer (s_template a) (s_template b))"

record item =
  item_name :: string
  item_spec :: payload

record cluster =
  functionsGet :: "apiError + item list"
  functionsPost :: "apiError option"
  functionsPut :: "apiError option"
  ingressPost :: "apiError option"

text \<open>
  What a chain does, in order: lines logged, calls to the cluster, the start of the
  readiness poller (\<open>waitForDeployment\<close> with the function name, the request moment and
  the namespace it is given) and the call of the ingress provisioner
  (\<open>addIngressRuleIfNecessary\<close>).
\<close>

datatype action =
    Log string
  | GetFunctions
  | PostFunction funcs
  | PutFunction string funcs
  | WaitForDeployment string int "string option"
  | CallIngressProvisioner string
  | PostIngress ingress

record options =
  opt_force :: bool
  opt_verbose :: bool

record provider =
  p_runtime :: string
  p_memorySize :: jsval
  p_hostname :: jsval

text \<open>A function of the service description; an event is an object, \<open>d_events\<close> an array.\<close>

record description =
  d_handler :: string
  d_events :: "(string \<times> jsval) list list option"
  d_description :: "string option"
  d_labels :: jsval
  d_environment :: "(string \<times> jsval) list option"
  d_memorySize :: jsval

text \<open>
  The result of one chain: its actions, the errors it pushed to the shared list, an
  exception nothing handles (then the chain stops without counting itself), and whether
  its last step (\<open>counter++\<close>) ran.
\<close>

record outcome =
  trace :: "action list"
  errors :: "error list"
  uncaught :: "error option"
  completed :: bool

text \<open>\<open>v.key\<close> on any value: a TypeError on undefined and null, undefined on a primitive.\<close>

fun member :: "jsval \<Rightarrow> string \<Rightarrow> error + jsval" where
  "member JUndefined k = Inl TypeError"
| "member JNull k = Inl TypeError"
| "member (JObj kvs) k = Inr (getProp kvs k)"
| "member v k = Inr JUndefined"

text \<open>\<open>_.keys(event)[0]\<close>\<close>

definition eventTypeOf :: "(string \<times> jsval) list \<Rightarrow> string option" where
  "eventTypeOf event = (case event of [] \<Rightarrow> None | kv # kvs \<Rightarrow> Some (fst kv))"

definition deployingMessage :: "string \<Rightarrow> string" where
  "deployingMessage name = ''Deploying function '' @ name @ ''...''"

definition alreadyExistsMessage :: "string \<Rightarrow> string" where
  \<open>alreadyExistsMessage name =
     ''The function '' @ name @ '' already exists. '' @
     ''Redeploy it usign --force or executing '' @
     ''"sls deploy function -f '' @ name @ ''".''\<close>

definition unchangedMessage :: "string \<Rightarrow> string" where
  "unchangedMessage name = ''Function '' @ name @ '' has not changed. Skipping deployment''"

definition received :: "apiError \<Rightarrow> string" where
  "received err =
     ''. Received:'' @ [newline] @ ''  Code: '' @ numToString (err_code err) @ [newline] @
     ''  Message: '' @ err_message err"

text \<open>
  \<open>deployFunctionAndWait\<close>: the create call. The promise resolves \<open>false\<close> on the conflict
  code 409, rejects on any other error, and on success starts the poller and resolves
  \<open>true\<close> at once; the poller hands nothing back.
\<close>

definition deployFunctionAndWait ::
  "int \<Rightarrow> funcs \<Rightarrow> string \<Rightarrow> apiError option \<Rightarrow> action list \<times> (error + bool)" where
  "deployFunctionAndWait requestMoment body ns answer =
     (let name = m_name (f_metadata body) in
      case answer of
        Some err \<Rightarrow>
          if err_code err = 409
          then ([Log (deployingMessage name), PostFunction body, Log (alreadyExistsMessage name)],
                Inr False)
          else ([Log (deployingMessage name), PostFunction body],
                Inl (Error (''Unable to deploy the function '' @ name @ received err)))
      | None \<Rightarrow>
          ([Log (deployingMessage name), PostFunction body,
            WaitForDeployment name requestMoment (Some ns)],
           Inr True))"

text \<open>\<open>redeployFunctionAndWait\<close>: the update call; the poller gets no namespace.\<close>

definition redeployFunctionAndWait ::
  "int \<Rightarrow> funcs \<Rightarrow> apiError option \<Rightarrow> action list \<times> (error + bool)" where
  "redeployFunctionAndWait requestMoment body answer =
     (let name = m_name (f_metadata body) in
      case answer of
        Some err \<Rightarrow>
          ([PutFunction name body],
           Inl (Error (''Unable to update the function '' @ name @ received err)))
      | None \<Rightarrow>
          ([PutFunction name body, WaitForDeployment name requestMoment None], Inr True))"

text \<open>
  \<open>addIngressRuleIfNecessary\<close>. \<open>apiHost\<close> is the host name of the cluster's API URL (the
  configuration helpers are not part of the repository). The promise rejects with a
  message when the ingress call fails, and with the TypeError of \<open>_.startsWith\<close> when
  the path cannot be turned into a string.
\<close>

definition addIngressRuleIfNecessary ::
  "bool \<Rightarrow> string \<Rightarrow> string \<Rightarrow> string \<Rightarrow> jsval \<Rightarrow> jsval \<Rightarrow> apiError option
   \<Rightarrow> action list \<times> error option" where
  "addIngressRuleIfNecessary verbose apiHost funcName eventType eventPath eventHostname answer =
     (let fpath = jsOr eventPath (JStr ''/'');
          hostname = jsOr eventHostname (JStr (apiHost @ ''.nip.io''))
      in if eventType = ''http''
            \<and> ((\<not> isEmpty eventPath \<and> eventPath \<noteq> JStr ''/'') \<or> \<not> isEmpty eventHostname)
         then
           if \<not> hasToString fpath then ([], Some TypeError)
           else
           (let absolutePath = (if take 1 (jsString fpath) = ''/'' then fpath
                                else JStr (''/'' @ jsString fpath));
                ingressDef = getIngressDescription funcName absolutePath hostname
            in case answer of
                 Some err \<Rightarrow>
                   ([PostIngress ingressDef],
                    Some (Error (''Unable to deploy the function '' @ funcName @
                                 '' in the given path. Received: '' @ err_message err)))
               | None \<Rightarrow>
                   (PostIngress ingressDef #
                      (if verbose
                       then [Log (''Deployed Ingress rule to map '' @ jsString absolutePath)]
                       else []),
                    None))
         else ((if verbose then [Log ''Skiping ingress rule generation''] else []), None))"

text \<open>
  The step after a deployment that resolved \<open>true\<close> and was not a redeployment: it throws
  on an undefined event value, reads the path and the host name of the event (the
  provider's host name first), and calls the provisioner. What it throws and what the
  provisioner rejects with goes to the error list.
\<close>

definition ingressStep ::
  "bool \<Rightarrow> provider \<Rightarrow> string \<Rightarrow> string \<Rightarrow> (string \<times> jsval) list \<Rightarrow> string
   \<Rightarrow> apiError option \<Rightarrow> action list \<times> error list" where
  "ingressStep verbose prov apiHost name event eventType answer =
     (let ev = getProp event eventType in
      if ev = JUndefined then
        ([], [if hasToString (JObj event)
              then Error (''Wrong defintion for the event '' @ jsString (JObj event) @ ''. '' @
                          ''Expecting an Object with valid keys.'')
              else TypeError])
      else
        (case member ev ''path'' of
           Inl e \<Rightarrow> ([], [e])
         | Inr eventPath \<Rightarrow>
             (case (if truthy (p_hostname prov) then Inr (p_hostname prov)
                    else member ev ''hostname'') of
                Inl e \<Rightarrow> ([], [e])
              | Inr eventHostname \<Rightarrow>
                  (case addIngressRuleIfNecessary verbose apiHost name eventType eventPath
                          eventHostname answer of
                     (acts, rejection) \<Rightarrow>
                       (CallIngressProvisioner name # acts,
                        (case rejection of None \<Rightarrow> [] | Some e \<Rightarrow> [e]))))))"

text \<open>
  The call of \<open>getFunctionDescription\<close> for one event of a function (lines 421 to 434):
  the memory is \<open>description.memorySize || provider.memorySize\<close>, the event type the first
  key of the event, the trigger topic \<open>event.trigger\<close>. The definition \<open>describeEvent\<close>
  stands before \<open>deployEvent\<close>, which starts with it.
\<close>

text \<open>
  One chain of \<open>deployFunction\<close>: the body of \<open>_.each(events, event => ...)\<close> with all its
  callbacks. \<open>ns\<close> is the namespace of the connection, \<open>requestMoment\<close> the current time
  when the create or update call is made.
\<close>

definition describeEvent ::
  "provider \<Rightarrow> string \<Rightarrow> string \<Rightarrow> description \<Rightarrow> string option \<Rightarrow> string
   \<Rightarrow> (string \<times> jsval) list \<Rightarrow> error + funcs" where
  "describeEvent prov name ns descr requirementsContent functionContent event =
     getFunctionDescription name ns (p_runtime prov) requirementsContent functionContent
       (d_handler descr) (d_description descr) (d_labels descr) (d_environment descr)
       (jsOr (d_memorySize descr) (p_memorySize prov))
       (eventTypeOf event) (getProp event ''trigger'')"

definition deployEvent ::
  "options \<Rightarrow> provider \<Rightarrow> string \<Rightarrow> int \<Rightarrow> string \<Rightarrow> string \<Rightarrow> description \<Rightarrow> string option
   \<Rightarrow> string \<Rightarrow> (string \<times> jsval) list \<Rightarrow> cluster \<Rightarrow> outcome" where
  "deployEvent opts prov apiHost requestMoment name ns descr requirementsContent
     functionContent event cl =
     (case describeEvent prov name ns descr requirementsContent functionContent event of
        Inl e \<Rightarrow> \<lparr> trace = [], errors = [], uncaught = Some e, completed = False \<rparr>
      | Inr body \<Rightarrow>
          (case functionsGet cl of
             Inl err \<Rightarrow>
               \<lparr> trace = [GetFunctions], errors = [],
                 uncaught = Some (Error (err_message err)), completed = False \<rparr>
           | Inr fitems \<Rightarrow>
               (let existingFunction =
                      (\<exists>it \<in> set fitems. item_name it = m_name (f_metadata body));
                    existingSameFunction =
                      (\<exists>it \<in> set fitems. item_name it = m_name (f_metadata body)
                                         \<and> isEqualSpec (item_spec it) (f_spec body));
                    redeployed = (\<not> existingSameFunction \<and> existingFunction \<and> opt_force opts);
                    deployment =
                      (if existingSameFunction then ([Log (unchangedMessage name)], Inr False)
                       else if existingFunction \<and> opt_force opts
                       then redeployFunctionAndWait requestMoment body (functionsPut cl)
                       else deployFunctionAndWait requestMoment body ns (functionsPost cl));
                    deployed = (case snd deployment of Inl e \<Rightarrow> False | Inr d \<Rightarrow> d);
                    deploymentErrors = (case snd deployment of Inl e \<Rightarrow> [e] | Inr d \<Rightarrow> []);
                    ingress =
                      (if \<not> deployed \<or> redeployed then ([], [])
                       else ingressStep (opt_verbose opts) prov apiHost name event
                              (eventTypeName (eventTypeOf event)) (ingressPost cl))
                in \<lparr> trace = GetFunctions # fst deployment @ fst ingress,
                     errors = deploymentErrors @ snd ingress,
                     uncaught = None,
                     completed = True \<rparr>)))"






text \<open>Sample inputs for concrete runs: the function \<open>hello\<close> of a Python service.\<close>

definition sampleProvider :: "jsval \<Rightarrow> provider" where
  "sampleProvider host = \<lparr> p_runtime = ''python2.7'', p_memorySize = JUndefined, p_hostname = host \<rparr>"

definition sampleDescription :: description where
  "sampleDescription =
     \<lparr> d_handler = ''handler.hello'', d_events = None, d_description = None,
       d_labels = JUndefined, d_environment = None, d_memorySize = JUndefined \<rparr>"

definition sampleBody :: funcs where
  "sampleBody =
     \<lparr> f_apiVersion = ''k8s.io/v1'', f_kind = ''Function'',
       f_metadata = \<lparr> m_name = ''hello'', m_namespace = ''default'',
                       m_annotations = None, m_labels = None \<rparr>,
       f_spec = \<lparr> s_deps = [], s_function = ''def hello(): pass'',
                   s_handler = ''handler.hello'', s_runtime = ''python2.7'',
                   s_template = None, s_type = Some ''HTTP'', s_topic = None \<rparr> \<rparr>"

definition sampleCluster :: "item list \<Rightarrow> apiError option \<Rightarrow> cluster" where
  "sampleCluster fitems postAnswer =
     \<lparr> functionsGet = Inr fitems, functionsPost = postAnswer, functionsPut = None,
       ingressPost = None \<rparr>"

section \<open>Properties of the Resource Spec Builder\<close>

lemma envEntries_ok:
  "list_all (\<lambda>kv. hasToString (snd kv)) kvs \<Longrightarrow> \<exists>r. envEntries kvs = Inr r"
proof (induction kvs)
  case Nil
  then show ?case by simp
next
  case (Cons kv kvs)
  obtain k v where kv: "kv = (k, v)" by (cases kv)
  from Cons obtain r where r: "envEntries kvs = Inr r" by auto
  from Cons.prems kv have "toString v = Inr (jsString v)" by (simp add: toString_def)
  with r kv show ?case by simp
qed

lemma toString_cases: "toString v = Inl TypeError \<or> toString v = Inr (jsString v)"
  by (simp add: toString_def)

lemma envEntries_throws:
  "\<not> list_all (\<lambda>kv. hasToString (snd kv)) kvs \<Longrightarrow> envEntries kvs = Inl TypeError"
proof (induction kvs)
  case Nil
  then show ?case by simp
next
  case (Cons kv kvs)
  obtain k v where kv: "kv = (k, v)" by (cases kv)
  show ?case
  proof (cases "hasToString v")
    case False
    with kv show ?thesis by (simp add: toString_def)
  next
    case True
    with Cons.prems kv
    have "\<not> list_all (\<lambda>kv. hasToString (snd kv)) kvs" by simp
    from Cons.IH [OF this] kv toString_cases [of v] show ?thesis by auto
  qed
qed

lemma memoryWithSuffix_ok:
  "hasToString memory \<Longrightarrow>
   memoryWithSuffix memory
   = Inr (if endsWithDigit (jsString memory) then JStr (jsString memory @ ''Mi'') else memory)"
  by (simp add: memoryWithSuffix_def toString_def)

lemma containerOf_ok:
  assumes "convertible env memory"
  shows "\<exists>t. containerOf funcName env memory = Inr t"
proof -
  from assms have m: "truthy memory \<Longrightarrow> hasToString memory" by (simp add: convertible_def)
  show ?thesis
  proof (cases env)
    case None
    then show ?thesis using m by (simp add: containerOf_def memoryWithSuffix_ok)
  next
    case (Some kvs)
    with assms obtain r where "envEntries (eachEntries kvs) = Inr r"
      using envEntries_ok [of "eachEntries kvs"] by (auto simp: convertible_def stringifiable_def)
    with Some show ?thesis using m by (simp add: containerOf_def memoryWithSuffix_ok)
  qed
qed

lemma containerOf_throws:
  assumes "\<not> convertible env memory"
  shows "containerOf funcName env memory = Inl TypeError"
proof (cases "stringifiable env")
  case False
  then obtain kvs where e: "env = Some kvs" by (cases env) (auto simp: stringifiable_def)
  with False have "envEntries (eachEntries kvs) = Inl TypeError"
    using envEntries_throws [of "eachEntries kvs"] by (simp add: stringifiable_def)
  with e show ?thesis by (simp add: containerOf_def)
next
  case True
  with assms have m: "truthy memory" "\<not> hasToString memory" by (simp_all add: convertible_def)
  then have w: "memoryWithSuffix memory = Inl TypeError"
    by (simp add: memoryWithSuffix_def toString_def)
  show ?thesis
  proof (cases env)
    case None
    with m w show ?thesis by (simp add: containerOf_def)
  next
    case (Some kvs)
    with True obtain r where "envEntries (eachEntries kvs) = Inr r"
      using envEntries_ok [of "eachEntries kvs"] by (auto simp: stringifiable_def)
    with Some m w show ?thesis by (simp add: containerOf_def)
  qed
qed

text \<open>
  Claim C1 as stated fails. The environment is converted before the event switch is
  reached, so with an environment value that has no string form (here \<open>null\<close>) the
  build throws a TypeError whatever the event key is: the key \<open>http\<close> yields no
  document, and an unsupported key does not get the unsupported-event error. And the
  topic test is \<open>_.isEmpty\<close>, which counts a number as empty: the numeric topic
  \<open>12345\<close> is refused like a missing one.
\<close>

theorem event_type_mapping_counterexample:
  "getFunctionDescription ''hello'' ''default'' ''python2.7'' None ''def f(): pass''
     ''handler.f'' None JUndefined (Some [(''A'', JStr ''x''), (''B'', JNull)])
     JUndefined (Some ''http'') JUndefined = Inl TypeError
   \<and> getFunctionDescription ''hello'' ''default'' ''python2.7'' None ''def f(): pass''
     ''handler.f'' None JUndefined (Some [(''A'', JStr ''x''), (''B'', JNull)])
     JUndefined (Some ''schedule'') JUndefined = Inl TypeError
   \<and> getFunctionDescription ''hello'' ''default'' ''python2.7'' None ''def f(): pass''
     ''handler.f'' None JUndefined None JUndefined (Some ''trigger'') (JNum 12345)
     = Inl (Error ''You should specify a topic for the trigger event'')"
  by (simp add: getFunctionDescription_def containerOf_def eachEntries_def getProp_def
      toString_def)

text \<open>
  Claim C1, amended. The build converts the environment and the memory value before it
  reaches the event switch. When both conversions go through (every value that
  \<open>_.each\<close> reads from the environment, and the memory value when it is truthy, can
  be turned into a string: none is null, undefined or an object with a \<open>toString\<close>
  key of its own), the event-type mapping is exhaustive and closed: the event key \<open>http\<close>
  yields spec type \<open>HTTP\<close> and no topic; the key \<open>trigger\<close> with a topic that
  \<open>_.isEmpty\<close> does not count as empty (a non-empty string, an object with keys) yields
  spec type \<open>PubSub\<close> with the topic preserved; \<open>trigger\<close> with an empty topic
  (missing, the empty string, a number, a boolean) fails with the error asking for a
  topic; any other key, or none, fails with the error that the event type is not
  supported. Otherwise the build fails with a TypeError, whatever the event.
\<close>

theorem event_type_mapping:
  "(convertible env memory \<longrightarrow>
      (eventType = Some ''http'' \<longrightarrow>
           (\<exists>f. getFunctionDescription funcName namespace runtime deps funcContent handler desc
                   labels env memory eventType eventTrigger = Inr f
                \<and> s_type (f_spec f) = Some ''HTTP'' \<and> s_topic (f_spec f) = None))
       \<and> (eventType = Some ''trigger'' \<and> \<not> isEmpty eventTrigger \<longrightarrow>
           (\<exists>f. getFunctionDescription funcName namespace runtime deps funcContent handler desc
                   labels env memory eventType eventTrigger = Inr f
                \<and> s_type (f_spec f) = Some ''PubSub'' \<and> s_topic (f_spec f) = Some eventTrigger))
       \<and> (eventType = Some ''trigger'' \<and> isEmpty eventTrigger \<longrightarrow>
           getFunctionDescription funcName namespace runtime deps funcContent handler desc
             labels env memory eventType eventTrigger
           = Inl (Error ''You should specify a topic for the trigger event''))
       \<and> (eventType \<noteq> Some ''http'' \<and> eventType \<noteq> Some ''trigger'' \<longrightarrow>
           getFunctionDescription funcName namespace runtime deps funcContent handler desc
             labels env memory eventType eventTrigger
           = Inl (Error (''Event type '' @ eventTypeName eventType @ '' is not supported''))))
   \<and> (\<not> convertible env memory \<longrightarrow>
         getFunctionDescription funcName namespace runtime deps funcContent handler desc
           labels env memory eventType eventTrigger = Inl TypeError)"
proof (cases "convertible env memory")
  case True
  from containerOf_ok [OF True] obtain t where "containerOf funcName env memory = Inr t" by blast
  with True show ?thesis by (simp add: getFunctionDescription_def Let_def)
next
  case False
  from containerOf_throws [OF False] have "containerOf funcName env memory = Inl TypeError" .
  with False show ?thesis by (simp add: getFunctionDescription_def Let_def)
qed

theorem event_type_mapping_witness:
  "convertible (Some [(''GREETING'', JStr ''hi''), (''PORT'', JNum 8080)]) (JNum 128)
   \<and> (\<exists>f. getFunctionDescription ''hello'' ''default'' ''python2.7'' None ''def f(): pass''
            ''handler.f'' None JUndefined (Some [(''GREETING'', JStr ''hi''), (''PORT'', JNum 8080)])
            (JNum 128) (Some ''http'') JUndefined = Inr f
         \<and> s_type (f_spec f) = Some ''HTTP'' \<and> s_topic (f_spec f) = None)
   \<and> (\<exists>f. getFunctionDescription ''hello'' ''default'' ''python2.7'' None ''def f(): pass''
            ''handler.f'' None JUndefined (Some [(''GREETING'', JStr ''hi''), (''PORT'', JNum 8080)])
            (JNum 128) (Some ''trigger'') (JStr ''orders'') = Inr f
         \<and> s_type (f_spec f) = Some ''PubSub'' \<and> s_topic (f_spec f) = Some (JStr ''orders''))
   \<and> getFunctionDescription ''hello'' ''default'' ''python2.7'' None ''def f(): pass''
        ''handler.f'' None JUndefined (Some [(''GREETING'', JStr ''hi''), (''PORT'', JNum 8080)])
        (JNum 128) (Some ''trigger'') JUndefined
      = Inl (Error ''You should specify a topic for the trigger event'')
   \<and> getFunctionDescription ''hello'' ''default'' ''python2.7'' None ''def f(): pass''
        ''handler.f'' None JUndefined (Some [(''GREETING'', JStr ''hi''), (''PORT'', JNum 8080)])
        (JNum 128) (Some ''schedule'') JUndefined
      = Inl (Error ''Event type schedule is not supported'')
   \<and> \<not> convertible (Some [(''length'', JNum 2)]) (JNum 128)
   \<and> getFunctionDescription ''hello'' ''default'' ''python2.7'' None ''def f(): pass''
        ''handler.f'' None JUndefined (Some [(''length'', JNum 2)])
        (JNum 128) (Some ''http'') JUndefined
      = Inl TypeError"
proof -
  let ?env = "Some [(''GREETING'', JStr ''hi''), (''PORT'', JNum 8080)]"
  have h: "convertible ?env (JNum 128)"
    by (simp add: convertible_def stringifiable_def eachEntries_def getProp_def)
  have e: "eachEntries [(''length'', JNum 2)] = [(JNum 0, JUndefined), (JNum 1, JUndefined)]"
    by (simp add: eachEntries_def getProp_def upt_rec numToString_def digitsOf.simps)
  have n: "\<not> convertible (Some [(''length'', JNum 2)]) (JNum 128)"
    by (simp add: convertible_def stringifiable_def e)
  note m = event_type_mapping [of ?env "JNum 128" _ "''hello''" "''default''" "''python2.7''" None
      "''def f(): pass''" "''handler.f''" None JUndefined]
  from m [of "Some ''http''" JUndefined] m [of "Some ''trigger''" "JStr ''orders''"]
    m [of "Some ''trigger''" JUndefined] m [of "Some ''schedule''" JUndefined] h n
    event_type_mapping [of "Some [(''length'', JNum 2)]" "JNum 128" "Some ''http''" "''hello''"
      "''default''" "''python2.7''" None "''def f(): pass''" "''handler.f''" None JUndefined
      JUndefined]
  show ?thesis by (simp add: eventTypeName_def)
qed

lemma digitsOf_last: "digitsOf n \<noteq> [] \<and> last (digitsOf n) = ''0123456789'' ! (n mod 10)"
  by (subst (1 2) digitsOf.simps) simp

lemma digit_nth: "k < 10 \<Longrightarrow> isDigit (''0123456789'' ! k)"
  unfolding isDigit_def by (rule nth_mem) simp

lemma endsWithDigit_numToString: "endsWithDigit (numToString n)"
  using digitsOf_last digit_nth [of "k mod 10" for k]
  by (simp add: endsWithDigit_def numToString_def)

lemma purelyNumeric_endsWithDigit: "spec_purelyNumeric s \<Longrightarrow> endsWithDigit s"
  by (cases s rule: rev_cases) (auto simp: spec_purelyNumeric_def endsWithDigit_def)

text \<open>
  Claim C6 as stated fails, in both directions. The test \<open>/\d+$/\<close> asks only for a
  digit at the end, so a value that is not purely numeric but ends in a digit also gets
  the unit appended: the quantity \<open>128e6\<close> (with a decimal exponent) becomes
  \<open>128e6Mi\<close>. And the block stands under \<open>if (memory)\<close>, so the purely numeric
  value \<open>0\<close> gets no unit and no memory override at all.
\<close>

theorem memory_suffix_counterexample:
  "\<not> spec_purelyNumeric ''128e6''
   \<and> getFunctionDescription ''hello'' ''default'' ''python2.7'' None ''def f(): pass''
        ''handler.f'' None JUndefined None (JStr ''128e6'') (Some ''http'') JUndefined
     = Inr \<lparr> f_apiVersion = ''k8s.io/v1'', f_kind = ''Function'',
             f_metadata = \<lparr> m_name = ''hello'', m_namespace = ''default'',
                             m_annotations = None, m_labels = None \<rparr>,
             f_spec = \<lparr> s_deps = [], s_function = ''def f(): pass'', s_handler = ''handler.f'',
                         s_runtime = ''python2.7'',
                         s_template = Some \<lparr> c_name = ''hello'', c_env = None,
                            c_resources = Some \<lparr> limits_memory = JStr ''128e6Mi'',
                                                   requests_memory = JStr ''128e6Mi'' \<rparr> \<rparr>,
                         s_type = Some ''HTTP'', s_topic = None \<rparr> \<rparr>
   \<and> spec_purelyNumeric (jsString (JNum 0))
   \<and> getFunctionDescription ''hello'' ''default'' ''python2.7'' None ''def f(): pass''
        ''handler.f'' None JUndefined None (JNum 0) (Some ''http'') JUndefined
     = Inr \<lparr> f_apiVersion = ''k8s.io/v1'', f_kind = ''Function'',
             f_metadata = \<lparr> m_name = ''hello'', m_namespace = ''default'',
                             m_annotations = None, m_labels = None \<rparr>,
             f_spec = \<lparr> s_deps = [], s_function = ''def f(): pass'', s_handler = ''handler.f'',
                         s_runtime = ''python2.7'', s_template = None,
                         s_type = Some ''HTTP'', s_topic = None \<rparr> \<rparr>"
  by (simp add: spec_purelyNumeric_def getFunctionDescription_def containerOf_def
      memoryWithSuffix_def toString_def endsWithDigit_def isDigit_def numToString_def
      digitsOf.simps)

text \<open>
  Claim C6, amended. In every built document: a truthy memory value whose string form ends
  in a decimal digit is replaced by that string followed by \<open>Mi\<close>; every other truthy
  memory value passes through unchanged; the same value stands in the memory limit and the
  memory request; a falsy memory value (absent, \<open>0\<close>, the empty string) yields no
  memory override at all. Every purely numeric string and every integer number ends in a
  digit, so those get the unit.
\<close>

theorem memory_normalization:
  assumes "getFunctionDescription funcName namespace runtime deps funcContent handler desc
             labels env memory eventType eventTrigger = Inr f"
  shows "(truthy memory \<and> endsWithDigit (jsString memory) \<longrightarrow>
            (\<exists>c. s_template (f_spec f) = Some c
               \<and> c_resources c = Some \<lparr> limits_memory = JStr (jsString memory @ ''Mi''),
                                        requests_memory = JStr (jsString memory @ ''Mi'') \<rparr>))
       \<and> (truthy memory \<and> \<not> endsWithDigit (jsString memory) \<longrightarrow>
            (\<exists>c. s_template (f_spec f) = Some c
               \<and> c_resources c = Some \<lparr> limits_memory = memory, requests_memory = memory \<rparr>))
       \<and> (\<not> truthy memory \<longrightarrow>
            (\<forall>c. s_template (f_spec f) = Some c \<longrightarrow> c_resources c = None))
       \<and> (\<forall>s. spec_purelyNumeric s \<longrightarrow> endsWithDigit (jsString (JStr s)))
       \<and> (\<forall>n. endsWithDigit (jsString (JNum n)))"
proof -
  from assms obtain t where t: "containerOf funcName env memory = Inr t"
    by (auto simp: getFunctionDescription_def Let_def split: sum.splits)
  with assms have tf: "s_template (f_spec f) = t"
    by (auto simp: getFunctionDescription_def Let_def split: if_splits)
  from t have "truthy memory \<Longrightarrow>
      \<exists>c m. t = Some c \<and> memoryWithSuffix memory = Inr m
        \<and> c_resources c = Some \<lparr> limits_memory = m, requests_memory = m \<rparr>"
    by (auto simp: containerOf_def split: sum.splits option.splits)
  moreover have "memoryWithSuffix memory = Inr m \<Longrightarrow>
      m = (if endsWithDigit (jsString memory) then JStr (jsString memory @ ''Mi'') else memory)"
    for m
    by (auto simp: memoryWithSuffix_def toString_def split: if_splits)
  moreover from t have "\<not> truthy memory \<Longrightarrow> \<forall>c. t = Some c \<longrightarrow> c_resources c = None"
    by (auto simp: containerOf_def split: sum.splits option.splits if_splits)
  ultimately show ?thesis
    using tf purelyNumeric_endsWithDigit endsWithDigit_numToString
    by (auto split: if_splits)
qed

theorem memory_normalization_witness:
  "getFunctionDescription ''hello'' ''default'' ''python2.7'' None ''def f(): pass''
        ''handler.f'' None JUndefined None (JStr ''128'') (Some ''http'') JUndefined
     = Inr \<lparr> f_apiVersion = ''k8s.io/v1'', f_kind = ''Function'',
             f_metadata = \<lparr> m_name = ''hello'', m_namespace = ''default'',
                             m_annotations = None, m_labels = None \<rparr>,
             f_spec = \<lparr> s_deps = [], s_function = ''def f(): pass'', s_handler = ''handler.f'',
                         s_runtime = ''python2.7'',
                         s_template = Some \<lparr> c_name = ''hello'', c_env = None,
                            c_resources = Some \<lparr> limits_memory = JStr ''128Mi'',
                                                   requests_memory = JStr ''128Mi'' \<rparr> \<rparr>,
                         s_type = Some ''HTTP'', s_topic = None \<rparr> \<rparr>
   \<and> truthy (JStr ''128'') \<and> endsWithDigit (jsString (JStr ''128'')) \<and> spec_purelyNumeric ''128''"
proof -
  let ?f = "\<lparr> f_apiVersion = ''k8s.io/v1'', f_kind = ''Function'',
             f_metadata = \<lparr> m_name = ''hello'', m_namespace = ''default'',
                             m_annotations = None, m_labels = None \<rparr>,
             f_spec = \<lparr> s_deps = [], s_function = ''def f(): pass'', s_handler = ''handler.f'',
                         s_runtime = ''python2.7'',
                         s_template = Some \<lparr> c_name = ''hello'', c_env = None,
                            c_resources = Some \<lparr> limits_memory = JStr ''128Mi'',
                                                   requests_memory = JStr ''128Mi'' \<rparr> \<rparr>,
                         s_type = Some ''HTTP'', s_topic = None \<rparr> \<rparr>"
  have b: "getFunctionDescription ''hello'' ''default'' ''python2.7'' None ''def f(): pass''
        ''handler.f'' None JUndefined None (JStr ''128'') (Some ''http'') JUndefined = Inr ?f"
    by (simp add: getFunctionDescription_def containerOf_def
      memoryWithSuffix_def toString_def endsWithDigit_def isDigit_def)
  have p: "spec_purelyNumeric ''128''" by (simp add: spec_purelyNumeric_def isDigit_def)
  from memory_normalization [OF b] b p show ?thesis by simp
qed


section \<open>Properties of the Log Filter\<close>

lemma split_on_nonempty: "split_on c s \<noteq> []"
  by (induction s) (auto split: list.splits)

lemma join_Cons_Cons: "ys \<noteq> [] \<Longrightarrow> join sep ((x # y) # ys) = x # join sep (y # ys)"
  by (cases ys) auto

lemma join_Nil_Cons: "ys \<noteq> [] \<Longrightarrow> join sep ([] # ys) = sep @ join sep ys"
  by (cases ys) auto

lemma join_split_on: "join [c] (split_on c s) = s"
proof (induction s)
  case Nil
  show ?case by simp
next
  case (Cons x xs)
  show ?case
  proof (cases "x = c")
    case True
    with Cons show ?thesis by (simp add: join_Nil_Cons split_on_nonempty)
  next
    case False
    obtain y ys where s: "split_on c xs = y # ys"
      using split_on_nonempty [of c xs] by (cases "split_on c xs") auto
    have "join [c] ((x # y) # ys) = x # join [c] (y # ys)"
      by (cases ys) auto
    with False s Cons show ?thesis by simp
  qed
qed

lemma filter_join: "filter (\<lambda>a. a \<noteq> c) (join [c] xs) = concat (map (filter (\<lambda>a. a \<noteq> c)) xs)"
  by (induction "[c]" xs rule: join.induct) auto

lemma concat_compact: "concat (map f (compact xs)) = concat (map f (filter (\<lambda>e. e \<noteq> []) xs))"
  by (simp add: compact_def)

lemma concat_filter_nonempty:
  "concat (map (filter P) (filter (\<lambda>e. e \<noteq> []) xs)) = concat (map (filter P) xs)"
  by (induction xs) auto

lemma concat_split_on: "concat (map (filter (\<lambda>a. a \<noteq> c)) (split_on c s)) = filter (\<lambda>a. a \<noteq> c) s"
  by (induction s) (auto split: list.splits)

lemma findIndex_range: "- 1 \<le> findIndex xs p \<and> findIndex xs p < int (length xs)"
  by (induction xs) (auto simp: Let_def)

lemma findIndex_none: "findIndex xs p = - 1 \<longleftrightarrow> (\<forall>x \<in> set xs. \<not> p x)"
proof (induction xs)
  case Nil
  show ?case by simp
next
  case (Cons x xs)
  from findIndex_range [of xs p] have "findIndex xs p + 1 \<noteq> - 1" by arith
  with Cons show ?case by (simp add: Let_def)
qed

lemma findIndex_drop:
  "findIndex xs p \<noteq> - 1 \<Longrightarrow> drop (nat (findIndex xs p)) xs = dropWhile (\<lambda>x. \<not> p x) xs"
proof (induction xs)
  case Nil
  then show ?case by simp
next
  case (Cons x xs)
  show ?case
  proof (cases "p x")
    case True
    then show ?thesis by simp
  next
    case False
    with Cons.prems have ne: "findIndex xs p \<noteq> - 1" by (auto simp: Let_def split: if_splits)
    with findIndex_range [of xs p] have "0 \<le> findIndex xs p" by arith
    then have "nat (findIndex xs p + 1) = Suc (nat (findIndex xs p))" by simp
    with False ne Cons.IH show ?thesis by (simp add: Let_def)
  qed
qed

lemma slice_index: "0 \<le> i \<Longrightarrow> i \<le> int (length xs) \<Longrightarrow> slice xs i = drop (nat i) xs"
  by (simp add: slice_def Let_def min_def)

lemma timeStage_set:
  assumes "startTime opts = Some st" "st \<noteq> []"
  shows "timeStage lib opts es =
           (if \<exists>x \<in> set es. entryAtOrAfter lib (startMoment lib st) x
            then dropWhile (\<lambda>x. \<not> entryAtOrAfter lib (startMoment lib st) x) es else [])"
proof -
  let ?p = "entryAtOrAfter lib (startMoment lib st)"
  show ?thesis
  proof (cases "findIndex es ?p = - 1")
    case True
    with assms findIndex_none [of es ?p] show ?thesis by (simp add: timeStage_def)
  next
    case False
    with findIndex_range [of es ?p] have r: "0 \<le> findIndex es ?p" "findIndex es ?p \<le> int (length es)"
      by arith+
    from False findIndex_none [of es ?p] have ex: "\<exists>x \<in> set es. ?p x" by blast
    from r False have "- 1 < findIndex es ?p" by arith
    with assms ex r show ?thesis
      by (simp add: timeStage_def Let_def slice_index findIndex_drop [OF False])
  qed
qed

lemma dropWhile_first:
  assumes "\<exists>x \<in> set es. p x"
  shows "\<exists>pre e post. es = pre @ e # post \<and> (\<forall>x \<in> set pre. \<not> p x) \<and> p e
           \<and> dropWhile (\<lambda>x. \<not> p x) es = e # post"
proof -
  let ?d = "dropWhile (\<lambda>x. \<not> p x) es"
  from assms have "?d \<noteq> []" by (auto simp: dropWhile_eq_Nil_conv)
  then obtain e post where d: "?d = e # post" by (cases ?d) auto
  then have "p e" using hd_dropWhile [of "\<lambda>x. \<not> p x" es] by force
  moreover have "es = takeWhile (\<lambda>x. \<not> p x) es @ e # post"
    using d takeWhile_dropWhile_id [of "\<lambda>x. \<not> p x" es] by simp
  moreover have "\<forall>x \<in> set (takeWhile (\<lambda>x. \<not> p x) es). \<not> p x"
    by (auto dest: set_takeWhileD)
  ultimately show ?thesis using d by blast
qed

text \<open>
  The shape of the time filter. With a start time set it works on the entries left by the
  count and pattern filters: when some entry satisfies the predicate handed to
  \<open>_.findIndex\<close>, the result is the first such entry and all entries after it, joined
  by line breaks; when none does, the result is empty, not the full input.
\<close>

lemma time_filter_keeps_from_first_match:
  assumes "startTime opts = Some st" and "st \<noteq> []"
  shows "((\<exists>x \<in> set (patternStage opts (countStage opts (compact (split_on newline logs)))).
             entryAtOrAfter lib (startMoment lib st) x) \<longrightarrow>
          (\<exists>pre e post.
             patternStage opts (countStage opts (compact (split_on newline logs))) = pre @ e # post
             \<and> (\<forall>x \<in> set pre. \<not> entryAtOrAfter lib (startMoment lib st) x)
             \<and> entryAtOrAfter lib (startMoment lib st) e
             \<and> filterLogs lib logs opts = join [newline] (e # post)))
       \<and> ((\<forall>x \<in> set (patternStage opts (countStage opts (compact (split_on newline logs)))).
             \<not> entryAtOrAfter lib (startMoment lib st) x) \<longrightarrow>
          filterLogs lib logs opts = [])"
proof -
  let ?es = "patternStage opts (countStage opts (compact (split_on newline logs)))"
  let ?p = "entryAtOrAfter lib (startMoment lib st)"
  have f: "filterLogs lib logs opts = join [newline] (timeStage lib opts ?es)"
    by (simp add: filterLogs_def)
  have t: "timeStage lib opts ?es = (if \<exists>x \<in> set ?es. ?p x then dropWhile (\<lambda>x. \<not> ?p x) ?es else [])"
    by (rule timeStage_set [OF assms])
  show ?thesis
  proof (intro conjI impI)
    assume ex: "\<exists>x \<in> set ?es. ?p x"
    from dropWhile_first [OF ex] obtain pre e post where
      "?es = pre @ e # post" "\<forall>x \<in> set pre. \<not> ?p x" "?p e" "dropWhile (\<lambda>x. \<not> ?p x) ?es = e # post"
      by blast
    with f t ex show "\<exists>pre e post. ?es = pre @ e # post \<and> (\<forall>x \<in> set pre. \<not> ?p x) \<and> ?p e
        \<and> filterLogs lib logs opts = join [newline] (e # post)"
      by auto
  next
    assume "\<forall>x \<in> set ?es. \<not> ?p x"
    with f t show "filterLogs lib logs opts = []" by simp
  qed
qed

text \<open>
  Claim C8 fails on the code for timestamps with a negative offset. The alternation of
  the timestamp pattern splits the whole group, so on an entry such as
  \<open>[01/Jan/2090:00:00:00 -0700] late\<close> the first branch (which asks for \<open>+\<close>) does
  not match and the second branch matches \<open>-0700\<close> alone: only that text reaches the
  date parser, and the date of the entry is never read. Whatever the date library makes
  of \<open>-0700\<close>, an entry of 1990 and an entry of 2090 get the same answer for the start
  time 2017-06-01: both are kept or both are dropped, where the claim keeps the later one
  and drops the earlier one.
\<close>

theorem negative_offset_timestamp_not_read:
  "entryDate ''[01/Jan/1990:00:00:00 -0700] early'' = Some ''-0700''
   \<and> entryDate ''[01/Jan/2090:00:00:00 -0700] late'' = Some ''-0700''
   \<and> filterLogs lib ''[01/Jan/1990:00:00:00 -0700] early''
         \<lparr> startTime = Some ''2017-06-01'', count = None, filter_opt = None \<rparr>
       = (if geNum (parseLogDate lib ''-0700'') (parseMoment lib ''2017-06-01'')
          then ''[01/Jan/1990:00:00:00 -0700] early'' else [])
   \<and> filterLogs lib ''[01/Jan/2090:00:00:00 -0700] late''
         \<lparr> startTime = Some ''2017-06-01'', count = None, filter_opt = None \<rparr>
       = (if geNum (parseLogDate lib ''-0700'') (parseMoment lib ''2017-06-01'')
          then ''[01/Jan/2090:00:00:00 -0700] late'' else [])"
proof -
  have 1: "entryDate ''[01/Jan/1990:00:00:00 -0700] early'' = Some ''-0700''"
    by (simp add: datePattern_def offsetPattern_def isDigit_def isAlpha_def)
  have 2: "entryDate ''[01/Jan/2090:00:00:00 -0700] late'' = Some ''-0700''"
    by (simp add: datePattern_def offsetPattern_def isDigit_def isAlpha_def)
  have s: "startMoment lib ''2017-06-01'' = parseMoment lib ''2017-06-01''"
    by (simp add: startMoment_def since_def)
  have 3: "filterLogs lib ''[01/Jan/1990:00:00:00 -0700] early''
         \<lparr> startTime = Some ''2017-06-01'', count = None, filter_opt = None \<rparr>
       = (if geNum (parseLogDate lib ''-0700'') (parseMoment lib ''2017-06-01'')
          then ''[01/Jan/1990:00:00:00 -0700] early'' else [])"
    by (simp add: filterLogs_def timeStage_def patternStage_def countStage_def compact_def
        newline_def entryAtOrAfter_def 1 s slice_def del: entryDate.simps)
  have 4: "filterLogs lib ''[01/Jan/2090:00:00:00 -0700] late''
         \<lparr> startTime = Some ''2017-06-01'', count = None, filter_opt = None \<rparr>
       = (if geNum (parseLogDate lib ''-0700'') (parseMoment lib ''2017-06-01'')
          then ''[01/Jan/2090:00:00:00 -0700] late'' else [])"
    by (simp add: filterLogs_def timeStage_def patternStage_def countStage_def compact_def
        newline_def entryAtOrAfter_def 2 s slice_def del: entryDate.simps)
  from 1 2 3 4 show ?thesis by blast
qed

text \<open>
  Claim C9. With every option unset (null, or a falsy value) the filter returns the
  non-empty lines of the input joined by line breaks: only line breaks are removed, and an
  input without empty lines comes back unchanged.
\<close>

theorem filter_unset_roundtrip:
  assumes "startTime opts = None \<or> startTime opts = Some []"
    and "count opts = None \<or> count opts = Some 0"
    and "filter_opt opts = None"
  shows "filterLogs lib logs opts = join [newline] (filter (\<lambda>e. e \<noteq> []) (split_on newline logs))
       \<and> filter (\<lambda>c. c \<noteq> newline) (filterLogs lib logs opts) = filter (\<lambda>c. c \<noteq> newline) logs
       \<and> ((\<forall>e \<in> set (split_on newline logs). e \<noteq> []) \<longrightarrow> filterLogs lib logs opts = logs)"
proof -
  from assms have 1: "filterLogs lib logs opts = join [newline] (compact (split_on newline logs))"
    by (auto simp: filterLogs_def timeStage_def patternStage_def countStage_def)
  have 2: "filter (\<lambda>c. c \<noteq> newline) (join [newline] (compact (split_on newline logs)))
      = filter (\<lambda>c. c \<noteq> newline) logs"
    by (simp only: filter_join concat_compact concat_filter_nonempty concat_split_on)
  have 3: "join [newline] (compact (split_on newline logs)) = logs"
    if "\<forall>e \<in> set (split_on newline logs). e \<noteq> []"
  proof -
    from that have "compact (split_on newline logs) = split_on newline logs"
      by (simp add: compact_def)
    then show ?thesis by (simp add: join_split_on)
  qed
  from 1 2 3 show ?thesis by (simp add: compact_def)
qed

theorem filter_unset_roundtrip_witness:
  "filterLogs sampleMoment (''a'' @ [newline, newline] @ ''b'' @ [newline])
       \<lparr> startTime = None, count = None, filter_opt = None \<rparr>
     = ''a'' @ [newline] @ ''b''
   \<and> split_on newline sampleLog
     = [''[01/Jan/2017:00:00:00 +0000] old'', ''[03/Nov/2017:10:00:00 +0000] new'', ''tail'']
   \<and> filterLogs sampleMoment sampleLog \<lparr> startTime = None, count = None, filter_opt = None \<rparr>
     = sampleLog"
proof -
  let ?o = "\<lparr> startTime = None, count = None, filter_opt = None \<rparr>"
  have u: "startTime ?o = None \<or> startTime ?o = Some []" "count ?o = None \<or> count ?o = Some 0"
    "filter_opt ?o = None" by simp_all
  have s: "split_on newline sampleLog
     = [''[01/Jan/2017:00:00:00 +0000] old'', ''[03/Nov/2017:10:00:00 +0000] new'', ''tail'']"
    by (simp add: sampleLog_def newline_def)
  from filter_unset_roundtrip [OF u, of sampleMoment "''a'' @ [newline, newline] @ ''b'' @ [newline]"]
    filter_unset_roundtrip [OF u, of sampleMoment sampleLog] s
  show ?thesis by (simp add: newline_def sampleLog_def)
qed

section \<open>Properties of the Readiness Poller\<close>

text \<open>
  Claim C2 fails on the code when \<open>verbose\<close> is off: the reset of the stability counter
  stands in the branch \<open>else if (this.options.verbose)\<close>, so without that option a tick
  that is not fully ready leaves the counter as it is. With one pod that is ready, then
  not ready, then ready again, the counter is still 1 after the second tick and the poller
  declares Stable on the third, although the two fully ready ticks are not consecutive.
  With \<open>verbose\<close> on, the same ticks do not reach Stable.
\<close>

theorem stability_counter_not_reset_without_verbose:
  "successfulCount (runTicks False ''hello'' 1000
       [PodsInfo [samplePod True 0], PodsInfo [samplePod False 0]] (pollerStart 0)) = 1
   \<and> Stable ''hello'' (runTicks False ''hello'' 1000
       [PodsInfo [samplePod True 0], PodsInfo [samplePod False 0], PodsInfo [samplePod True 0]]
       (pollerStart 0))
   \<and> successfulCount (runTicks True ''hello'' 1000
       [PodsInfo [samplePod True 0], PodsInfo [samplePod False 0]] (pollerStart 0)) = 0
   \<and> \<not> Stable ''hello'' (runTicks True ''hello'' 1000
       [PodsInfo [samplePod True 0], PodsInfo [samplePod False 0], PodsInfo [samplePod True 0]]
       (pollerStart 0))"
  by (simp add: tick_def samplePod_def pollerStart_def Stable_def cli_log_def
      successMessage_def podStatusText_def)










section \<open>Properties of the Deployment Reconciler\<close>

lemma built_name:
  "getFunctionDescription funcName namespace runtime deps funcContent handler desc labels env
     memory eventType eventTrigger = Inr f \<Longrightarrow> m_name (f_metadata f) = funcName"
  by (auto simp: getFunctionDescription_def Let_def split: sum.splits if_splits)

lemma describeEvent_name:
  "describeEvent prov name ns descr requirementsContent functionContent event = Inr body
   \<Longrightarrow> m_name (f_metadata body) = name"
  unfolding describeEvent_def by (rule built_name)

lemma deployEvent_skip:
  assumes "describeEvent prov name ns descr requirementsContent functionContent event = Inr body"
    and "functionsGet cl = Inr fitems"
    and "it \<in> set fitems"
    and "item_name it = m_name (f_metadata body)"
    and "isEqualSpec (item_spec it) (f_spec body)"
  shows "deployEvent opts prov apiHost requestMoment name ns descr requirementsContent
           functionContent event cl
         = \<lparr> trace = [GetFunctions, Log (unchangedMessage name)], errors = [],
             uncaught = None, completed = True \<rparr>"
proof -
  from assms(3,4,5)
  have "\<exists>it \<in> set fitems. item_name it = m_name (f_metadata body) \<and> isEqualSpec (item_spec it) (f_spec body)"
    by blast
  with assms(1,2) show ?thesis by (simp add: deployEvent_def Let_def)
qed

lemma addIngressRuleIfNecessary_actions:
  "\<forall>a \<in> set (fst (addIngressRuleIfNecessary verbose apiHost funcName eventType eventPath
                        eventHostname answer)).
     (\<exists>i. a = PostIngress i) \<or> (\<exists>l. a = Log l)"
  by (simp add: addIngressRuleIfNecessary_def Let_def split: option.splits)

lemma ingressStep_shape:
  "fst (ingressStep verbose prov apiHost name event eventType answer) = []
   \<or> (\<exists>acts. fst (ingressStep verbose prov apiHost name event eventType answer)
              = CallIngressProvisioner name # acts
            \<and> (\<forall>a \<in> set acts. (\<exists>i. a = PostIngress i) \<or> (\<exists>l. a = Log l)))"
proof -
  let ?ev = "getProp event eventType"
  show ?thesis
  proof (cases "?ev = JUndefined")
    case True
    then show ?thesis by (simp add: ingressStep_def)
  next
    case False
    show ?thesis
    proof (cases "member ?ev ''path''")
      case (Inl e)
      with False show ?thesis by (simp add: ingressStep_def)
    next
      case p: (Inr eventPath)
      show ?thesis
      proof (cases "if truthy (p_hostname prov) then Inr (p_hostname prov)
                    else member ?ev ''hostname''")
        case (Inl e)
        with False p show ?thesis by (simp add: ingressStep_def)
      next
        case h: (Inr eventHostname)
        obtain acts rejection where
          a: "addIngressRuleIfNecessary verbose apiHost name eventType eventPath eventHostname
                answer = (acts, rejection)"
          by (cases "addIngressRuleIfNecessary verbose apiHost name eventType eventPath
                eventHostname answer")
        from addIngressRuleIfNecessary_actions [of verbose apiHost name eventType eventPath
            eventHostname answer] a
        have "\<forall>a \<in> set acts. (\<exists>i. a = PostIngress i) \<or> (\<exists>l. a = Log l)" by simp
        moreover from False p h a
        have "fst (ingressStep verbose prov apiHost name event eventType answer)
              = CallIngressProvisioner name # acts"
          by (simp add: ingressStep_def)
        ultimately show ?thesis by blast
      qed
    qed
  qed
qed

lemma deployEvent_update:
  assumes b: "describeEvent prov name ns descr requirementsContent functionContent event = Inr body"
    and fi: "functionsGet cl = Inr fitems"
    and s: "\<not> (\<exists>it \<in> set fitems. item_name it = m_name (f_metadata body)
                                         \<and> isEqualSpec (item_spec it) (f_spec body))"
    and u: "(\<exists>it \<in> set fitems. item_name it = m_name (f_metadata body)) \<and> opt_force opts"
  shows "deployEvent opts prov apiHost requestMoment name ns descr requirementsContent
           functionContent event cl
         = \<lparr> trace = GetFunctions # fst (redeployFunctionAndWait requestMoment body (functionsPut cl)),
             errors = (case snd (redeployFunctionAndWait requestMoment body (functionsPut cl)) of
                         Inl e \<Rightarrow> [e] | Inr d \<Rightarrow> []),
             uncaught = None, completed = True \<rparr>"
proof -
  from s have s': "(\<exists>it \<in> set fitems. item_name it = m_name (f_metadata body)
                                         \<and> isEqualSpec (item_spec it) (f_spec body)) = False" by simp
  from u have u': "(\<exists>it \<in> set fitems. item_name it = m_name (f_metadata body)) = True"
    "opt_force opts = True" by simp_all
  show ?thesis
    unfolding deployEvent_def b fi sum.case Let_def s' u' by simp
qed


lemma deployEvent_create:
  assumes b: "describeEvent prov name ns descr requirementsContent functionContent event = Inr body"
    and fi: "functionsGet cl = Inr fitems"
    and s: "\<not> (\<exists>it \<in> set fitems. item_name it = m_name (f_metadata body)
                                         \<and> isEqualSpec (item_spec it) (f_spec body))"
    and u: "\<not> ((\<exists>it \<in> set fitems. item_name it = m_name (f_metadata body)) \<and> opt_force opts)"
  shows "deployEvent opts prov apiHost requestMoment name ns descr requirementsContent
           functionContent event cl
         = (case functionsPost cl of
              Some err \<Rightarrow>
                \<lparr> trace = GetFunctions # fst (deployFunctionAndWait requestMoment body ns (Some err)),
                  errors = (if err_code err = 409 then []
                            else [Error (''Unable to deploy the function '' @ name @ received err)]),
                  uncaught = None, completed = True \<rparr>
            | None \<Rightarrow>
                \<lparr> trace = [GetFunctions, Log (deployingMessage name), PostFunction body,
                             WaitForDeployment name requestMoment (Some ns)]
                          @ fst (ingressStep (opt_verbose opts) prov apiHost name event
                                   (eventTypeName (eventTypeOf event)) (ingressPost cl)),
                  errors = snd (ingressStep (opt_verbose opts) prov apiHost name event
                                   (eventTypeName (eventTypeOf event)) (ingressPost cl)),
                  uncaught = None, completed = True \<rparr>)"
proof -
  from s have s': "(\<exists>it \<in> set fitems. item_name it = m_name (f_metadata body)
                                         \<and> isEqualSpec (item_spec it) (f_spec body)) = False" by simp
  from u have u': "((\<exists>it \<in> set fitems. item_name it = m_name (f_metadata body))
                    \<and> opt_force opts) = False" by simp
  note n = describeEvent_name [OF b]
  show ?thesis
  proof (cases "functionsPost cl")
    case None
    show ?thesis
      unfolding deployEvent_def b fi sum.case Let_def s' u' None deployFunctionAndWait_def
      by (simp add: n)
  next
    case (Some err)
    show ?thesis
      unfolding deployEvent_def b fi sum.case Let_def s' u' Some deployFunctionAndWait_def
      by (simp add: n)
  qed
qed

lemma deployEvent_trace_shape:
  "trace (deployEvent opts prov apiHost requestMoment name ns descr requirementsContent
           functionContent event cl) = []
   \<or> (\<exists>acts. trace (deployEvent opts prov apiHost requestMoment name ns descr requirementsContent
           functionContent event cl) = GetFunctions # acts
        \<and> (\<forall>a \<in> set acts. (\<forall>n. a \<noteq> CallIngressProvisioner n) \<and> (\<forall>i. a \<noteq> PostIngress i)))
   \<or> (\<exists>body. trace (deployEvent opts prov apiHost requestMoment name ns descr
           requirementsContent functionContent event cl)
          = [GetFunctions, Log (deployingMessage name), PostFunction body,
             WaitForDeployment name requestMoment (Some ns)]
            @ fst (ingressStep (opt_verbose opts) prov apiHost name event
                     (eventTypeName (eventTypeOf event)) (ingressPost cl)))"
  (is "?A \<or> ?B \<or> ?C")
proof (cases "describeEvent prov name ns descr requirementsContent functionContent event")
  case (Inl e)
  then show ?thesis by (simp add: deployEvent_def)
next
  case (Inr body)
  show ?thesis
  proof (cases "functionsGet cl")
    case (Inl err)
    with Inr have ?B by (simp add: deployEvent_def)
    then show ?thesis by blast
  next
    case fi: (Inr fitems)
    let ?same = "\<exists>it \<in> set fitems. item_name it = m_name (f_metadata body)
                                         \<and> isEqualSpec (item_spec it) (f_spec body)"
    let ?ex = "\<exists>it \<in> set fitems. item_name it = m_name (f_metadata body)"
    show ?thesis
    proof (cases ?same)
      case True
      then obtain it where "it \<in> set fitems" "item_name it = m_name (f_metadata body)"
        "isEqualSpec (item_spec it) (f_spec body)" by blast
      from deployEvent_skip [OF Inr fi this] have ?B by simp
      then show ?thesis by blast
    next
      case False
      show ?thesis
      proof (cases "?ex \<and> opt_force opts")
        case True
        have ?B
          by (cases "functionsPut cl")
            (simp_all add: deployEvent_update [OF Inr fi False True] redeployFunctionAndWait_def
              Let_def)
        then show ?thesis by blast
      next
        case nf: False
        note c = deployEvent_create [OF Inr fi False nf]
        show ?thesis
        proof (cases "functionsPost cl")
          case (Some err)
          have ?B by (simp add: c Some deployFunctionAndWait_def Let_def)
          then show ?thesis by blast
        next
          case None
          have ?C by (simp add: c None)
          then show ?thesis by blast
        qed
      qed
    qed
  qed
qed

lemma deployEvent_trace_cases:
  obtains "trace (deployEvent opts prov apiHost requestMoment name ns descr requirementsContent
           functionContent event cl) = []"
  | acts where "trace (deployEvent opts prov apiHost requestMoment name ns descr requirementsContent
           functionContent event cl) = GetFunctions # acts"
      "\<forall>a \<in> set acts. (\<forall>n. a \<noteq> CallIngressProvisioner n) \<and> (\<forall>i. a \<noteq> PostIngress i)"
  | body acts where "trace (deployEvent opts prov apiHost requestMoment name ns descr
           requirementsContent functionContent event cl)
          = [GetFunctions, Log (deployingMessage name), PostFunction body,
             WaitForDeployment name requestMoment (Some ns), CallIngressProvisioner name] @ acts"
      "\<forall>a \<in> set acts. (\<exists>i. a = PostIngress i) \<or> (\<exists>l. a = Log l)"
proof -
  let ?I = "ingressStep (opt_verbose opts) prov apiHost name event
                     (eventTypeName (eventTypeOf event)) (ingressPost cl)"
  from ingressStep_shape [of "opt_verbose opts" prov apiHost name event
              "eventTypeName (eventTypeOf event)" "ingressPost cl"]
  consider "fst ?I = []"
    | acts where "fst ?I = CallIngressProvisioner name # acts"
        "\<forall>a \<in> set acts. (\<exists>i. a = PostIngress i) \<or> (\<exists>l. a = Log l)"
    by blast
  then show ?thesis
  proof cases
    case 1
    with deployEvent_trace_shape [of opts prov apiHost requestMoment name ns descr
           requirementsContent functionContent event cl] that(1,2)
    show ?thesis by (elim disjE exE conjE) auto
  next
    case 2
    with deployEvent_trace_shape [of opts prov apiHost requestMoment name ns descr
           requirementsContent functionContent event cl] that
    show ?thesis by (elim disjE exE conjE) auto
  qed
qed

lemma deployEvent_update_trace:
  assumes "PutFunction n b \<in> set (trace (deployEvent opts prov apiHost requestMoment name ns descr
           requirementsContent functionContent event cl))"
  shows "\<forall>a \<in> set (trace (deployEvent opts prov apiHost requestMoment name ns descr
           requirementsContent functionContent event cl)).
           (\<forall>m. a \<noteq> CallIngressProvisioner m) \<and> (\<forall>i. a \<noteq> PostIngress i)"
  using assms
  by - (rule deployEvent_trace_cases [of opts prov apiHost requestMoment name ns descr
           requirementsContent functionContent event cl], auto)

lemma sample_describeEvent:
  "describeEvent (sampleProvider host) ''hello'' ''default'' sampleDescription None
     ''def hello(): pass'' [(''http'', v)] = Inr sampleBody"
  by (simp add: describeEvent_def sampleProvider_def sampleDescription_def sampleBody_def
      getFunctionDescription_def containerOf_def eventTypeOf_def jsOr_def)

lemma sampleProvider_sel:
  "p_runtime (sampleProvider host) = ''python2.7''"
  "p_memorySize (sampleProvider host) = JUndefined"
  "p_hostname (sampleProvider host) = host"
  by (simp_all add: sampleProvider_def)

lemma sampleCluster_sel:
  "functionsGet (sampleCluster fitems postAnswer) = Inr fitems"
  "functionsPost (sampleCluster fitems postAnswer) = postAnswer"
  "functionsPut (sampleCluster fitems postAnswer) = None"
  "ingressPost (sampleCluster fitems postAnswer) = None"
  by (simp_all add: sampleCluster_def)










text \<open>
  Claim C4 as stated fails: the poller hands nothing back to the chain. The create path
  calls the ingress provisioner right after it has started the poller, whatever the
  poller finds later. Here the ingress rule is submitted, and the poller started for the
  function sees no pod on any tick: it gives up and never declares Stable.
\<close>

theorem ingress_without_poller_success_counterexample:
  "trace (deployEvent \<lparr> opt_force = False, opt_verbose = False \<rparr> (sampleProvider JUndefined)
       ''192.168.99.100'' 1000 ''hello'' ''default'' sampleDescription None ''def hello(): pass''
       [(''http'', JObj [(''path'', JStr ''/hello'')])] (sampleCluster [] None))
     = [GetFunctions, Log (deployingMessage ''hello''), PostFunction sampleBody,
        WaitForDeployment ''hello'' 1000 (Some ''default''), CallIngressProvisioner ''hello'',
        PostIngress (getIngressDescription ''hello'' (JStr ''/hello'')
                       (JStr ''192.168.99.100.nip.io''))]
   \<and> GivenUp ''hello'' (runTicks False ''hello'' 1000
         [PodsInfo [], PodsInfo [], PodsInfo [], PodsInfo [], PodsInfo []] (pollerStart 0))
   \<and> \<not> Stable ''hello'' (runTicks False ''hello'' 1000
         [PodsInfo [], PodsInfo [], PodsInfo [], PodsInfo [], PodsInfo []] (pollerStart 0))"
proof -
  have b: "describeEvent (sampleProvider JUndefined) ''hello'' ''default'' sampleDescription None
     ''def hello(): pass'' [(''http'', JObj [(''path'', JStr ''/hello'')])] = Inr sampleBody"
    by (rule sample_describeEvent)
  have t: "trace (deployEvent \<lparr> opt_force = False, opt_verbose = False \<rparr> (sampleProvider JUndefined)
       ''192.168.99.100'' 1000 ''hello'' ''default'' sampleDescription None ''def hello(): pass''
       [(''http'', JObj [(''path'', JStr ''/hello'')])] (sampleCluster [] None))
     = [GetFunctions, Log (deployingMessage ''hello''), PostFunction sampleBody,
        WaitForDeployment ''hello'' 1000 (Some ''default''), CallIngressProvisioner ''hello'',
        PostIngress (getIngressDescription ''hello'' (JStr ''/hello'')
                       (JStr ''192.168.99.100.nip.io''))]"
    by (simp add: deployEvent_def b sampleCluster_sel sampleBody_def Let_def
        deployFunctionAndWait_def ingressStep_def addIngressRuleIfNecessary_def
        eventTypeOf_def eventTypeName_def getProp_def sampleProvider_sel jsOr_def)
  have p: "runTicks False ''hello'' 1000
         [PodsInfo [], PodsInfo [], PodsInfo [], PodsInfo [], PodsInfo []] (pollerStart 0)
       = \<lparr> retries = 4, successfulCount = 0, previousPodStatus = None, cleared = True,
           exitCode = 0,
           logged = [''Unable to find any running pod for hello. Retrying...'',
                     ''Unable to find any running pod for hello. Retrying...'',
                     ''Unable to find any running pod for hello. Retrying...'',
                     ''Unable to find any running pod for hello. Retrying...'',
                     givingUpMessage ''hello''],
           thrown = None \<rparr>"
    by (simp add: tick_def pollerStart_def cli_log_def)
  show ?thesis
    unfolding t p by (simp add: GivenUp_def Stable_def successMessage_def givingUpMessage_def)
qed

text \<open>
  Claim C4, amended. In every chain, a call of the ingress provisioner comes right after
  the create call and the start of the readiness poller for that function (it does not
  wait for the poller's outcome); an ingress rule is submitted only after the provisioner
  was called; and a chain that makes the update call (forced redeploy) neither calls the
  provisioner nor submits an ingress rule.
\<close>

theorem ingress_follows_create_and_poller_start:
  "(\<forall>n pre post.
      trace (deployEvent opts prov apiHost requestMoment name ns descr requirementsContent
               functionContent event cl) = pre @ CallIngressProvisioner n # post \<longrightarrow>
      n = name \<and>
      (\<exists>body. pre = [GetFunctions, Log (deployingMessage name), PostFunction body,
                     WaitForDeployment name requestMoment (Some ns)]))
   \<and> (\<forall>i pre post.
      trace (deployEvent opts prov apiHost requestMoment name ns descr requirementsContent
               functionContent event cl) = pre @ PostIngress i # post \<longrightarrow>
      CallIngressProvisioner name \<in> set pre)
   \<and> ((\<exists>n b. PutFunction n b \<in> set (trace (deployEvent opts prov apiHost requestMoment name ns
               descr requirementsContent functionContent event cl))) \<longrightarrow>
      (\<forall>a \<in> set (trace (deployEvent opts prov apiHost requestMoment name ns descr
               requirementsContent functionContent event cl)).
         (\<forall>m. a \<noteq> CallIngressProvisioner m) \<and> (\<forall>i. a \<noteq> PostIngress i)))"
proof -
  let ?t = "trace (deployEvent opts prov apiHost requestMoment name ns descr requirementsContent
               functionContent event cl)"
  note shape = deployEvent_trace_cases [of opts prov apiHost requestMoment name ns descr
           requirementsContent functionContent event cl]
  have 1: "n = name \<and> (\<exists>body. pre = [GetFunctions, Log (deployingMessage name), PostFunction body,
                     WaitForDeployment name requestMoment (Some ns)])"
    if "?t = pre @ CallIngressProvisioner n # post" for n pre post
    using that by - (rule shape, auto simp: Cons_eq_append_conv)
  have 2: "CallIngressProvisioner name \<in> set pre"
    if "?t = pre @ PostIngress i # post" for i pre post
    using that by - (rule shape, auto simp: Cons_eq_append_conv)
  have 3: "\<forall>a \<in> set ?t. (\<forall>m. a \<noteq> CallIngressProvisioner m) \<and> (\<forall>i. a \<noteq> PostIngress i)"
    if "\<exists>n b. PutFunction n b \<in> set ?t"
    using that deployEvent_update_trace by blast
  from 1 2 3 show ?thesis by blast
qed

theorem ingress_follows_create_and_poller_start_witness:
  "trace (deployEvent \<lparr> opt_force = False, opt_verbose = False \<rparr> (sampleProvider JUndefined)
       ''192.168.99.100'' 1000 ''hello'' ''default'' sampleDescription None ''def hello(): pass''
       [(''http'', JObj [(''path'', JStr ''/hello'')])] (sampleCluster [] None))
     = [GetFunctions, Log (deployingMessage ''hello''), PostFunction sampleBody,
        WaitForDeployment ''hello'' 1000 (Some ''default'')]
       @ CallIngressProvisioner ''hello''
       # [PostIngress (getIngressDescription ''hello'' (JStr ''/hello'')
                         (JStr ''192.168.99.100.nip.io''))]
   \<and> (\<exists>body. [GetFunctions, Log (deployingMessage ''hello''), PostFunction sampleBody,
               WaitForDeployment ''hello'' 1000 (Some ''default'')]
             = [GetFunctions, Log (deployingMessage ''hello''), PostFunction body,
                WaitForDeployment ''hello'' 1000 (Some ''default'')])
   \<and> PutFunction ''hello'' sampleBody
       \<in> set (trace (deployEvent \<lparr> opt_force = True, opt_verbose = False \<rparr>
           (sampleProvider JUndefined) ''192.168.99.100'' 1000 ''hello'' ''default''
           sampleDescription None ''def hello(): pass''
           [(''http'', JObj [(''path'', JStr ''/hello'')])]
           (sampleCluster [\<lparr> item_name = ''hello'',
                              item_spec = Payload ((f_spec sampleBody)\<lparr> s_runtime := ''python3.4'' \<rparr>) \<rparr>]
              None)))
   \<and> CallIngressProvisioner ''hello''
       \<notin> set (trace (deployEvent \<lparr> opt_force = True, opt_verbose = False \<rparr>
           (sampleProvider JUndefined) ''192.168.99.100'' 1000 ''hello'' ''default''
           sampleDescription None ''def hello(): pass''
           [(''http'', JObj [(''path'', JStr ''/hello'')])]
           (sampleCluster [\<lparr> item_name = ''hello'',
                              item_spec = Payload ((f_spec sampleBody)\<lparr> s_runtime := ''python3.4'' \<rparr>) \<rparr>]
              None)))"
proof -
  let ?ev = "[(''http'', JObj [(''path'', JStr ''/hello'')])]"
  let ?create = "deployEvent \<lparr> opt_force = False, opt_verbose = False \<rparr> (sampleProvider JUndefined)
       ''192.168.99.100'' 1000 ''hello'' ''default'' sampleDescription None ''def hello(): pass''
       ?ev (sampleCluster [] None)"
  let ?update = "deployEvent \<lparr> opt_force = True, opt_verbose = False \<rparr>
           (sampleProvider JUndefined) ''192.168.99.100'' 1000 ''hello'' ''default''
           sampleDescription None ''def hello(): pass'' ?ev
           (sampleCluster [\<lparr> item_name = ''hello'',
                              item_spec = Payload ((f_spec sampleBody)\<lparr> s_runtime := ''python3.4'' \<rparr>) \<rparr>]
              None)"
  let ?pre = "[GetFunctions, Log (deployingMessage ''hello''), PostFunction sampleBody,
        WaitForDeployment ''hello'' 1000 (Some ''default'')]"
  let ?post = "[PostIngress (getIngressDescription ''hello'' (JStr ''/hello'')
                         (JStr ''192.168.99.100.nip.io''))]"
  have b: "describeEvent (sampleProvider JUndefined) ''hello'' ''default'' sampleDescription None
     ''def hello(): pass'' ?ev = Inr sampleBody"
    by (rule sample_describeEvent)
  have t: "trace ?create = ?pre @ CallIngressProvisioner ''hello'' # ?post"
    by (simp add: deployEvent_def b sampleCluster_sel sampleBody_def Let_def
        deployFunctionAndWait_def ingressStep_def addIngressRuleIfNecessary_def
        eventTypeOf_def eventTypeName_def getProp_def sampleProvider_sel jsOr_def)
  have u: "trace ?update = [GetFunctions, PutFunction ''hello'' sampleBody,
                            WaitForDeployment ''hello'' 1000 None]"
    by (simp add: deployEvent_def b sampleCluster_sel sampleBody_def Let_def
        redeployFunctionAndWait_def)
  note c = ingress_follows_create_and_poller_start [of "\<lparr> opt_force = False, opt_verbose = False \<rparr>"
      "sampleProvider JUndefined" "''192.168.99.100''" 1000 "''hello''" "''default''"
      sampleDescription None "''def hello(): pass''" ?ev "sampleCluster [] None"]
  from c t have 1: "\<exists>body. ?pre = [GetFunctions, Log (deployingMessage ''hello''),
      PostFunction body, WaitForDeployment ''hello'' 1000 (Some ''default'')]"
    by blast
  have 2: "PutFunction ''hello'' sampleBody \<in> set (trace ?update)" by (simp add: u)
  from ingress_follows_create_and_poller_start [of "\<lparr> opt_force = True, opt_verbose = False \<rparr>"
      "sampleProvider JUndefined" "''192.168.99.100''" 1000 "''hello''" "''default''"
      sampleDescription None "''def hello(): pass''" ?ev
      "sampleCluster [\<lparr> item_name = ''hello'',
                              item_spec = Payload ((f_spec sampleBody)\<lparr> s_runtime := ''python3.4'' \<rparr>) \<rparr>]
              None"] 2
  have 3: "CallIngressProvisioner ''hello'' \<notin> set (trace ?update)" by blast
  from t 1 2 3 show ?thesis by blast
qed



end
